theory Spec2Isabelle
  imports Complex_Main
begin

section \<open>Python values used by app.py\<close>

text \<open>
  Exceptions the handlers can let escape. An escaped exception is answered by Flask with
  a server error; \<open>abort\<close> is a failure of its own, with the status code and the reason.
\<close>

datatype exn =
    AttributeError | ValidationError | SchemaError | URLError | ValueError | TypeError
  | KeyError | FileNotFoundError | FileExistsError | IsADirectoryError | NotADirectoryError

text \<open>
  A Python float: a finite value or one of the three special values. \<open>py_eq\<close> is
  \<open>==\<close> on floats: NaN equals nothing, itself included; \<open>-0.0\<close> and \<open>0.0\<close> are the
  same real.
\<close>

datatype pyfloat = Finite real | PosInf | NegInf | NaN

definition py_eq :: "pyfloat \<Rightarrow> pyfloat \<Rightarrow> bool" where
  "py_eq x y = (x \<noteq> NaN \<and> y \<noteq> NaN \<and> x = y)"

text \<open>
  \<open>x in xs\<close> for a float parsed from the request and a list of the reader: the request's
  float is a fresh object, so the identity shortcut of \<open>in\<close> never applies and
  membership is \<open>==\<close> with some element.
\<close>

definition py_in :: "pyfloat \<Rightarrow> pyfloat list \<Rightarrow> bool" where
  "py_in x xs = list_ex (py_eq x) xs"

text \<open>A parsed JSON document. An object is the dict Python built from it.\<close>

datatype json =
    JNull | JBool bool | JInt int | JFloat pyfloat | JStr string
  | JArr "json list" | JObj "(string \<times> json) list"

text \<open>\<open>d.get(k)\<close>: only a dict has the method; a missing key gives \<open>None\<close>.\<close>

fun py_get :: "json \<Rightarrow> string \<Rightarrow> exn + json" where
  "py_get (JObj kvs) k = Inr (case map_of kvs k of None \<Rightarrow> JNull | Some v \<Rightarrow> v)"
| "py_get _ k = Inl AttributeError"

text \<open>\<open>d[k]\<close> with a string key: a dict without the key raises KeyError, every other value
  raises TypeError.\<close>

fun py_item :: "json \<Rightarrow> string \<Rightarrow> exn + json" where
  "py_item (JObj kvs) k = (case map_of kvs k of None \<Rightarrow> Inl KeyError | Some v \<Rightarrow> Inr v)"
| "py_item _ k = Inl TypeError"

text \<open>Truth value of a document, as \<open>if mt:\<close> tests it.\<close>

fun truthy :: "json \<Rightarrow> bool" where
  "truthy JNull = False"
| "truthy (JBool b) = b"
| "truthy (JInt i) = (i \<noteq> 0)"
| "truthy (JFloat f) = (f \<noteq> Finite 0)"
| "truthy (JStr s) = (s \<noteq> [])"
| "truthy (JArr xs) = (xs \<noteq> [])"
| "truthy (JObj kvs) = (kvs \<noteq> [])"

text \<open>\<open>needle in haystack\<close> on strings and \<open>s.endswith(suffix)\<close>.\<close>

fun startswith :: "string \<Rightarrow> string \<Rightarrow> bool" where
  "startswith s [] = True"
| "startswith [] (p # ps) = False"
| "startswith (c # cs) (p # ps) = (c = p \<and> startswith cs ps)"

fun contains :: "string \<Rightarrow> string \<Rightarrow> bool" where
  "contains [] needle = (needle = [])"
| "contains (c # cs) needle = (startswith (c # cs) needle \<or> contains cs needle)"

definition endswith :: "string \<Rightarrow> string \<Rightarrow> bool" where
  "endswith s suffix =
     (length suffix \<le> length s \<and> drop (length s - length suffix) s = suffix)"

section \<open>The world the handlers act on\<close>

text \<open>
  A file holds bytes (one \<open>char\<close> each); a directory lists its entries in the order the
  operating system reports them. \<open>modflow\<close> is the listing of MODFLOW_FOLDER and
  \<open>uploads\<close> the one of UPLOAD_FOLDER. A calculation id names an entry directly below
  MODFLOW_FOLDER: \<open>os.path.join(MODFLOW_FOLDER, calculation_id)\<close> is the entry
  \<open>calculation_id\<close> of \<open>modflow\<close>.
\<close>

datatype node = File string | Dir "(string \<times> node) list"

type_synonym folder = "(string \<times> node) list"

text \<open>
  A row of table \<open>calculations\<close>. The autoincremented key is read by no handler and is
  left out. \<open>created_at\<close> and \<open>updated_at\<close> are clock readings.
\<close>

record calculation =
  calculation_id :: string
  state :: int
  message :: "string option"
  created_at :: nat
  updated_at :: nat

record world =
  modflow :: folder
  uploads :: "(string \<times> string) list"
  calculations :: "calculation list"

definition remove_entry :: "string \<Rightarrow> (string \<times> 'a) list \<Rightarrow> (string \<times> 'a) list" where
  "remove_entry name es = filter (\<lambda>e. fst e \<noteq> name) es"

definition put_entry :: "string \<Rightarrow> 'a \<Rightarrow> (string \<times> 'a) list \<Rightarrow> (string \<times> 'a) list" where
  "put_entry name x es =
     (if map_of es name = None then es @ [(name, x)]
      else map (\<lambda>e. if fst e = name then (name, x) else e) es)"

text \<open>The node at \<open>os.path.join(MODFLOW_FOLDER, calculation_id, name)\<close>, if any.\<close>

definition job_entry :: "folder \<Rightarrow> string \<Rightarrow> string \<Rightarrow> node option" where
  "job_entry fs cid name =
     (case map_of fs cid of Some (Dir es) \<Rightarrow> map_of es name | _ \<Rightarrow> None)"

text \<open>\<open>os.path.exists\<close> of that path.\<close>

definition exists_in_job :: "folder \<Rightarrow> string \<Rightarrow> string \<Rightarrow> bool" where
  "exists_in_job fs cid name = (job_entry fs cid name \<noteq> None)"

text \<open>\<open>shutil.rmtree(target_directory, ignore_errors=True)\<close>: a directory goes with all it
  holds; anything else is an error, which is ignored.\<close>

definition rmtree :: "folder \<Rightarrow> string \<Rightarrow> folder" where
  "rmtree fs cid = (case map_of fs cid of Some (Dir es) \<Rightarrow> remove_entry cid fs | _ \<Rightarrow> fs)"

text \<open>\<open>os.makedirs(target_directory)\<close>: raises when the path exists already.\<close>

definition makedirs :: "folder \<Rightarrow> string \<Rightarrow> exn + folder" where
  "makedirs fs cid =
     (case map_of fs cid of None \<Rightarrow> Inr (fs @ [(cid, Dir [])]) | Some n \<Rightarrow> Inl FileExistsError)"

text \<open>\<open>open(path, 'w')\<close> and a write of \<open>bytes\<close> to a file of the job's directory.\<close>

definition write_job_file :: "folder \<Rightarrow> string \<Rightarrow> string \<Rightarrow> string \<Rightarrow> exn + folder" where
  "write_job_file fs cid name bytes =
     (case map_of fs cid of
        Some (Dir es) \<Rightarrow>
          (case map_of es name of
             Some (Dir sub) \<Rightarrow> Inl IsADirectoryError
           | _ \<Rightarrow> Inr (put_entry cid (Dir (put_entry name (File bytes) es)) fs))
      | Some (File b) \<Rightarrow> Inl NotADirectoryError
      | None \<Rightarrow> Inl FileNotFoundError)"

text \<open>
  Reading in text mode translates every CR LF and every lone CR into LF (Python's
  universal newlines, the default of \<open>open\<close> and of \<open>Path.read_text\<close>).
\<close>

fun universal_newlines :: "string \<Rightarrow> string" where
  "universal_newlines [] = []"
| "universal_newlines [c] = (if c = CHR 0x0D then [CHR 0x0A] else [c])"
| "universal_newlines (c # d # cs) =
     (if c = CHR 0x0D then
        (if d = CHR 0x0A then CHR 0x0A # universal_newlines cs
         else CHR 0x0A # universal_newlines (d # cs))
      else c # universal_newlines (d # cs))"

section \<open>What the handlers take from outside\<close>

datatype schema = MfPackages | MtPackages

text \<open>The readers of FlopyAdapter: what they report, and the arrays they read on demand.\<close>

record layer_reader =
  read_times :: "pyfloat list"
  read_number_of_layers :: int
  read_layer :: "pyfloat \<Rightarrow> int \<Rightarrow> exn + json"
  read_ts :: "int \<Rightarrow> int \<Rightarrow> int \<Rightarrow> exn + json"

record budget_reader =
  budget_read_times :: "pyfloat list"
  read_budget_by_totim :: "pyfloat \<Rightarrow> bool \<Rightarrow> exn + json"
  read_budget_by_idx :: "int \<Rightarrow> bool \<Rightarrow> exn + json"

record concentration_reader =
  read_number_of_substances :: int
  concentration_read_times :: "pyfloat list"
  concentration_read_number_of_layers :: int
  concentration_read_layer :: "int \<Rightarrow> pyfloat \<Rightarrow> int \<Rightarrow> exn + json"

text \<open>
  \<^item> \<open>codec\<close>: the decoder of the platform's text encoding; \<open>None\<close> is UnicodeDecodeError,
    a ValueError;
  \<^item> \<open>file_json\<close>: \<open>json.loads\<close> of a file read in text mode; \<open>None\<close> is a ValueError;
  \<^item> \<open>json_file\<close>: the bytes \<open>json.dump\<close> writes for a document;
  \<^item> \<open>body_json\<close>: \<open>request.get_json(force=True)\<close> on the request body; \<open>None\<close> is the
    parse failure, answered with status 400;
  \<^item> \<open>schema_check k x\<close>: the three statements of a \<open>try\<close> block of \<open>is_valid\<close>, fetching
    schema \<open>k\<close> from the schema server, parsing it and validating \<open>x\<close> against it; \<open>None\<close>
    is no exception, \<open>Some e\<close> is the exception raised;
  \<^item> \<open>uuid4\<close>: the name drawn for the temporary upload; \<open>clock\<close>: the two readings of
    \<open>datetime.now()\<close> in \<open>insert_new_calculation\<close>;
  \<^item> \<open>py_int\<close>, \<open>py_float\<close>: \<open>int(s)\<close> and \<open>float(s)\<close>; \<open>None\<close> is a ValueError;
  \<^item> the four reader classes, opened on the listing of the job's directory.
\<close>

record env =
  codec :: "string \<Rightarrow> string option"
  file_json :: "string \<Rightarrow> json option"
  json_file :: "json \<Rightarrow> string"
  body_json :: "string \<Rightarrow> json option"
  schema_check :: "schema \<Rightarrow> json \<Rightarrow> exn option"
  uuid4 :: string
  clock :: "nat \<times> nat"
  py_int :: "string \<Rightarrow> int option"
  py_float :: "string \<Rightarrow> pyfloat option"
  ReadHead :: "folder \<Rightarrow> layer_reader"
  ReadDrawdown :: "folder \<Rightarrow> layer_reader"
  ReadBudget :: "folder \<Rightarrow> budget_reader"
  ReadConcentration :: "folder \<Rightarrow> concentration_reader"

section \<open>Answers\<close>

text \<open>The reason given to \<open>abort\<close>, with the values its message is formatted from.\<close>

datatype reason =
    NoFileUploaded
  | NoSelectedFile
  | SchemaMismatch
  | AlreadyExists string
  | ContentNotValid
  | BadRequest
  | CalculationNotFound string
  | FileNotFound string
  | TypeNotPermitted string "string list"
  | TotimNotAvailable pyfloat "pyfloat list"
  | LayerBound int
  | TotimKeyNotAvailable int int int
  | SubstanceNotAvailable int int

datatype failure = Abort nat reason | Raise exn

text \<open>The JSON document of \<open>get_calculation_details_json\<close>.\<close>

record details =
  details_calculation_id :: string
  details_state :: json
  details_message :: json
  details_files :: "string list"
  start_date_time :: json
  time_unit :: json
  total_times :: "pyfloat list"
  layer_values :: "string list list"

datatype response =
    Redirect string
  | Identity int string string
  | UploadForm
  | DetailsHtml string json
  | DetailsJson details
  | FileJson string string
  | ArrayJson json
  | BudgetJson json json
  | ZipFile "(string \<times> string) list"

type_synonym answer = "failure + response"

section \<open>The registry\<close>

definition insert_new_calculation :: "env \<Rightarrow> string \<Rightarrow> calculation list \<Rightarrow> calculation list" where
  "insert_new_calculation e cid rows =
     rows @ [\<lparr>calculation_id = cid, state = 0, message = None,
              created_at = fst (clock e), updated_at = snd (clock e)\<rparr>]"

text \<open>\<open>cursor.fetchone()\<close> of the selection by id: the first matching row, or \<open>None\<close>.\<close>

definition get_calculation_by_id :: "calculation list \<Rightarrow> string \<Rightarrow> calculation option" where
  "get_calculation_by_id rows cid = find (\<lambda>r. calculation_id r = cid) rows"

definition get_number_of_calculations :: "calculation list \<Rightarrow> int \<Rightarrow> nat" where
  "get_number_of_calculations rows st = length (filter (\<lambda>r. state r = st) rows)"

text \<open>The number of rows of one id (what the spec calls the registry count for that id).\<close>

definition records_of :: "calculation list \<Rightarrow> string \<Rightarrow> nat" where
  "records_of rows cid = length (filter (\<lambda>r. calculation_id r = cid) rows)"

section \<open>Submission\<close>

text \<open>
  \<open>is_valid\<close>: the first \<open>try\<close> turns an AttributeError into \<open>False\<close>; the other two turn
  a ValidationError into \<open>False\<close> and let every other exception of their body escape.
\<close>

definition is_valid :: "env \<Rightarrow> json \<Rightarrow> exn + bool" where
  "is_valid e content =
     (case py_get content ''data'' of
        Inl a \<Rightarrow> Inr False
      | Inr data \<Rightarrow>
     (case py_get data ''mf'' of
        Inl a \<Rightarrow> Inr False
      | Inr mf \<Rightarrow>
     (case py_get data ''mt'' of
        Inl a \<Rightarrow> Inr False
      | Inr mt \<Rightarrow>
     (case schema_check e MfPackages mf of
        Some x \<Rightarrow> (if x = ValidationError then Inr False else Inl x)
      | None \<Rightarrow>
     (if truthy mt then
        (case schema_check e MtPackages mt of
           Some x \<Rightarrow> (if x = ValidationError then Inr False else Inl x)
         | None \<Rightarrow> Inr True)
      else Inr True)))))"

text \<open>\<open>Path(...).read_text()\<close> of a file of the job's directory.\<close>

definition read_text :: "env \<Rightarrow> folder \<Rightarrow> string \<Rightarrow> string \<Rightarrow> exn + string" where
  "read_text e fs cid name =
     (case job_entry fs cid name of
        None \<Rightarrow> Inl FileNotFoundError
      | Some (Dir es) \<Rightarrow> Inl IsADirectoryError
      | Some (File bytes) \<Rightarrow>
          (case codec e bytes of None \<Rightarrow> Inl ValueError | Some s \<Rightarrow> Inr (universal_newlines s)))"

text \<open>
  Lines 248 to 260: create the directory and the record when the configuration file is
  not there, and answer with the identity.
\<close>

definition create_if_absent :: "env \<Rightarrow> json \<Rightarrow> string \<Rightarrow> world \<Rightarrow> (exn + unit) \<times> world" where
  "create_if_absent e content cid w =
     (if \<not> exists_in_job (modflow w) cid ''configuration.json'' then
        (case makedirs (modflow w) cid of
           Inl x \<Rightarrow> (Inl x, w)
         | Inr fs1 \<Rightarrow>
        (case write_job_file fs1 cid ''configuration.json'' (json_file e content) of
           Inl x \<Rightarrow> (Inl x, w\<lparr>modflow := fs1\<rparr>)
         | Inr fs2 \<Rightarrow>
             (Inr (), w\<lparr>modflow := fs2,
                        calculations := insert_new_calculation e cid (calculations w)\<rparr>)))
      else (Inr (), w))"

text \<open>
  Lines 238 to 246: the two tests on \<open>state.log\<close> follow each other (the second is not
  an \<open>else\<close> of the first), so the second reads the file whatever the first did.
\<close>

definition purge_prior :: "env \<Rightarrow> string \<Rightarrow> world \<Rightarrow> (exn + unit) \<times> world" where
  "purge_prior e cid w =
     (if exists_in_job (modflow w) cid ''configuration.json'' then
        (let w1 = (if \<not> exists_in_job (modflow w) cid ''state.log''
                   then w\<lparr>modflow := rmtree (modflow w) cid\<rparr> else w)
         in case read_text e (modflow w1) cid ''state.log'' of
              Inl x \<Rightarrow> (Inl x, w1)
            | Inr txt \<Rightarrow>
                (Inr (), if txt \<noteq> ''200'' then w1\<lparr>modflow := rmtree (modflow w1) cid\<rparr> else w1))
      else (Inr (), w))"

text \<open>The branch of \<open>upload_file\<close> for an inline document (lines 228 to 260).\<close>

definition upload_inline :: "env \<Rightarrow> string \<Rightarrow> world \<Rightarrow> answer \<times> world" where
  "upload_inline e body w =
     (case body_json e body of
        None \<Rightarrow> (Inl (Abort 400 BadRequest), w)
      | Some content \<Rightarrow>
     (case is_valid e content of
        Inl x \<Rightarrow> (Inl (Raise x), w)
      | Inr False \<Rightarrow> (Inl (Abort 422 ContentNotValid), w)
      | Inr True \<Rightarrow>
     (case py_get content ''calculation_id'' of
        Inl x \<Rightarrow> (Inl (Raise x), w)
      | Inr (JStr cid) \<Rightarrow>
          (case purge_prior e cid w of
             (Inl x, w1) \<Rightarrow> (Inl (Raise x), w1)
           | (Inr u, w1) \<Rightarrow>
          (case create_if_absent e content cid w1 of
             (Inl x, w2) \<Rightarrow> (Inl (Raise x), w2)
           | (Inr u, w2) \<Rightarrow> (Inr (Identity 200 cid (''/'' @ cid)), w2)))
      | Inr other \<Rightarrow> (Inl (Raise TypeError), w))))"

text \<open>An uploaded file of a multipart request: its name and its bytes.\<close>

record upload =
  filename :: string
  payload :: string

text \<open>The branch of \<open>upload_file\<close> for an uploaded file (lines 194 to 226).\<close>

definition upload_multipart :: "env \<Rightarrow> (string \<times> upload) list \<Rightarrow> world \<Rightarrow> answer \<times> world" where
  "upload_multipart e files w =
     (case map_of files ''file'' of
        None \<Rightarrow> (Inl (Abort 415 NoFileUploaded), w)
      | Some uploaded_file \<Rightarrow>
     (if filename uploaded_file = [] then (Inl (Abort 415 NoSelectedFile), w)
      else
     (let temp_filename = uuid4 e @ ''.json'';
          w0 = w\<lparr>uploads := put_entry temp_filename (payload uploaded_file) (uploads w)\<rparr>
      in
     (case file_json e (payload uploaded_file) of
        None \<Rightarrow> (Inl (Raise ValueError), w0)
      | Some content \<Rightarrow>
     (case is_valid e content of
        Inl x \<Rightarrow> (Inl (Raise x), w0)
      | Inr False \<Rightarrow>
          (Inl (Abort 422 SchemaMismatch),
           w0\<lparr>uploads := remove_entry temp_filename (uploads w0)\<rparr>)
      | Inr True \<Rightarrow>
     (case py_get content ''calculation_id'' of
        Inl x \<Rightarrow> (Inl (Raise x), w0)
      | Inr (JStr cid) \<Rightarrow>
          (if exists_in_job (modflow w0) cid ''configuration.json''
           then (Inl (Abort 422 (AlreadyExists cid)), w0)
           else
          (case makedirs (modflow w0) cid of
             Inl x \<Rightarrow> (Inl (Raise x), w0)
           | Inr fs1 \<Rightarrow>
          (case write_job_file fs1 cid ''configuration.json'' (json_file e content) of
             Inl x \<Rightarrow> (Inl (Raise x), w0\<lparr>modflow := fs1\<rparr>)
           | Inr fs2 \<Rightarrow>
               (Inr (Redirect (''/'' @ cid)),
                w0\<lparr>modflow := fs2,
                   calculations := insert_new_calculation e cid (calculations w0)\<rparr>))))
      | Inr other \<Rightarrow> (Inl (Raise TypeError), w0)))))))"

record request =
  request_method :: string
  content_type :: "string option"
  files :: "(string \<times> upload) list"
  body :: string

text \<open>
  \<open>upload_file\<close>. A request without a content type makes the \<open>in\<close> test raise; a request
  that takes no branch makes the view return \<open>None\<close>, which Flask refuses with a
  TypeError.
\<close>

definition upload_file :: "env \<Rightarrow> request \<Rightarrow> world \<Rightarrow> answer \<times> world" where
  "upload_file e r w =
     (if request_method r = ''POST'' then
        (case content_type r of
           None \<Rightarrow> (Inl (Raise TypeError), w)
         | Some ct \<Rightarrow>
             if contains ct ''multipart/form-data'' then upload_multipart e (files r) w
             else if contains ct ''application/json'' then upload_inline e (body r) w
             else (Inl (Raise TypeError), w))
      else if request_method r = ''GET'' then (Inr UploadForm, w)
      else (Inl (Raise TypeError), w))"

section \<open>Metadata and files\<close>

text \<open>The listing of the job's directory, on which the readers are opened.\<close>

definition job_folder :: "folder \<Rightarrow> string \<Rightarrow> folder" where
  "job_folder fs cid = (case map_of fs cid of Some (Dir es) \<Rightarrow> es | _ \<Rightarrow> [])"

text \<open>\<open>range(0, n)\<close> for a value taken from the document: an integer or a boolean.\<close>

fun py_range :: "json \<Rightarrow> exn + nat" where
  "py_range (JInt i) = Inr (nat i)"
| "py_range (JBool b) = Inr (if b then 1 else 0)"
| "py_range _ = Inl TypeError"

text \<open>
  \<open>get_calculation_details_json\<close>. The row of the registry is an \<open>sqlite3.Row\<close> or
  \<open>None\<close>: neither takes an item assignment, so the statement that stores the log as
  the message raises once the log is read.
\<close>

definition get_calculation_details_json ::
  "env \<Rightarrow> calculation list \<Rightarrow> folder \<Rightarrow> string \<Rightarrow> json \<Rightarrow> answer" where
  "get_calculation_details_json e rows fs cid data =
     (let calculation = get_calculation_by_id rows cid;
          log = (case job_entry fs cid ''modflow.log'' of
                   Some (File bytes) \<Rightarrow>
                     (case codec e bytes of None \<Rightarrow> Some ValueError | Some s \<Rightarrow> Some TypeError)
                 | _ \<Rightarrow> None)
      in
     (case log of
        Some x \<Rightarrow> Inl (Raise x)
      | None \<Rightarrow>
     (let path = job_folder fs cid;
          heads = ReadHead e path;
          budget_times = budget_read_times (ReadBudget e path);
          concentration_times = concentration_read_times (ReadConcentration e path);
          drawdown_times = read_times (ReadDrawdown e path);
          lv = [''head''] @ (if length budget_times > 0 then [''budget''] else [])
                 @ (if length concentration_times > 0 then [''concentration''] else [])
                 @ (if length drawdown_times > 0 then [''drawdown''] else [])
      in
     (case py_item data ''dis'' of
        Inl x \<Rightarrow> Inl (Raise x)
      | Inr dis \<Rightarrow>
     (case py_item dis ''start_datetime'' of
        Inl x \<Rightarrow> Inl (Raise x)
      | Inr start \<Rightarrow>
     (case py_item dis ''itmuni'' of
        Inl x \<Rightarrow> Inl (Raise x)
      | Inr itmuni \<Rightarrow>
     (case py_item dis ''nlay'' of
        Inl x \<Rightarrow> Inl (Raise x)
      | Inr number_of_layers \<Rightarrow>
     (case py_range number_of_layers of
        Inl x \<Rightarrow> Inl (Raise x)
      | Inr n \<Rightarrow>
     (case calculation of
        None \<Rightarrow> Inl (Raise TypeError)
      | Some c \<Rightarrow>
          Inr (DetailsJson
            \<lparr>details_calculation_id = cid,
             details_state = JInt (state c),
             details_message = (case message c of None \<Rightarrow> JNull | Some m \<Rightarrow> JStr m),
             details_files = map fst path,
             start_date_time = start,
             time_unit = itmuni,
             total_times = read_times heads,
             layer_values = replicate n lv\<rparr>))))))))))"

text \<open>\<open>read_json\<close> of the configuration file of a job.\<close>

definition read_json :: "env \<Rightarrow> folder \<Rightarrow> string \<Rightarrow> string \<Rightarrow> exn + json" where
  "read_json e fs cid name =
     (case job_entry fs cid name of
        None \<Rightarrow> Inl FileNotFoundError
      | Some (Dir es) \<Rightarrow> Inl IsADirectoryError
      | Some (File bytes) \<Rightarrow>
          (case file_json e bytes of None \<Rightarrow> Inl ValueError | Some d \<Rightarrow> Inr d))"

definition calculation_details :: "env \<Rightarrow> string option \<Rightarrow> world \<Rightarrow> string \<Rightarrow> answer" where
  "calculation_details e ctype w cid =
     (if \<not> exists_in_job (modflow w) cid ''configuration.json''
      then Inl (Abort 404 (CalculationNotFound cid))
      else
     (case read_json e (modflow w) cid ''configuration.json'' of
        Inl x \<Rightarrow> Inl (Raise x)
      | Inr doc \<Rightarrow>
     (case py_get doc ''data'' of
        Inl x \<Rightarrow> Inl (Raise x)
      | Inr d \<Rightarrow>
     (case py_get d ''mf'' of
        Inl x \<Rightarrow> Inl (Raise x)
      | Inr data \<Rightarrow>
          (case ctype of
             Some ct \<Rightarrow>
               if ct \<noteq> [] \<and> contains ct ''application/json''
               then get_calculation_details_json e (calculations w) (modflow w) cid data
               else Inr (DetailsHtml cid data)
           | None \<Rightarrow> Inr (DetailsHtml cid data))))))"

text \<open>
  Iterating over a file opened in binary mode gives its lines: each block ends after a
  line feed, the last one at the end of the file.
\<close>

fun blocks_from :: "string \<Rightarrow> string \<Rightarrow> string list" where
  "blocks_from cur [] = (if cur = [] then [] else [cur])"
| "blocks_from cur (c # cs) =
     (if c = CHR 0x0A then (cur @ [c]) # blocks_from [] cs else blocks_from (cur @ [c]) cs)"

definition blocks :: "string \<Rightarrow> string list" where
  "blocks bytes = blocks_from [] bytes"

text \<open>The loop of \<open>is_binary\<close>: it returns at the first block with a zero byte.\<close>

fun null_in_blocks :: "string list \<Rightarrow> bool" where
  "null_in_blocks [] = False"
| "null_in_blocks (block # rest) =
     (if CHR 0x00 \<in> set block then True else null_in_blocks rest)"

definition is_binary :: "node \<Rightarrow> exn + bool" where
  "is_binary n =
     (case n of Dir es \<Rightarrow> Inl IsADirectoryError | File bytes \<Rightarrow> Inr (null_in_blocks (blocks bytes)))"

definition binary_notice :: string where
  "binary_notice = ''This file is a binary file and cannot be shown as text''"

definition get_file :: "env \<Rightarrow> folder \<Rightarrow> string \<Rightarrow> string \<Rightarrow> answer" where
  "get_file e fs cid file_name =
     (case job_entry fs cid file_name of
        None \<Rightarrow> Inl (Abort 404 (FileNotFound file_name))
      | Some n \<Rightarrow>
     (case is_binary n of
        Inl x \<Rightarrow> Inl (Raise x)
      | Inr True \<Rightarrow> Inr (FileJson file_name binary_notice)
      | Inr False \<Rightarrow>
     (case n of
        Dir es \<Rightarrow> Inl (Raise IsADirectoryError)
      | File bytes \<Rightarrow>
          (case codec e bytes of
             None \<Rightarrow> Inl (Raise ValueError)
           | Some s \<Rightarrow> Inr (FileJson file_name (universal_newlines s))))))"

section \<open>Download\<close>

definition dirs_of :: "folder \<Rightarrow> string list" where
  "dirs_of es = map fst (filter (\<lambda>e. case snd e of Dir sub \<Rightarrow> True | File b \<Rightarrow> False) es)"

definition files_of :: "folder \<Rightarrow> string list" where
  "files_of es = map fst (filter (\<lambda>e. case snd e of Dir sub \<Rightarrow> False | File b \<Rightarrow> True) es)"

text \<open>
  \<open>os.walk(dirpath)\<close>: the triple of the directory itself, then the walks of its
  subdirectories in the order of the listing.
\<close>

function walk_node :: "string \<Rightarrow> node \<Rightarrow> (string \<times> string list \<times> string list) list" where
  "walk_node dirpath (File b) = []"
| "walk_node dirpath (Dir es) =
     (dirpath, dirs_of es, files_of es)
       # concat (map (\<lambda>e. walk_node (dirpath @ ''/'' @ fst e) (snd e)) es)"
  by pat_completeness auto
termination
proof (relation "measure (\<lambda>(dirpath, n). size n)")
  show "wf (measure (\<lambda>(dirpath, n). size n))" by simp
next
  fix dirpath :: string and es :: folder and e
  assume "e \<in> set es"
  then have "size (snd e) \<le> size_list (\<lambda>x. Suc (size (snd x))) es"
    by (induction es) auto
  moreover have "size_prod (\<lambda>x. 0) size = (\<lambda>x :: string \<times> node. Suc (size (snd x)))"
    by (rule ext) (simp add: size_prod_simp)
  ultimately show "((dirpath @ ''/'' @ fst e, snd e), (dirpath, Dir es))
      \<in> measure (\<lambda>(dirpath, n). size n)"
    by simp
qed

text \<open>
  \<open>z.write(filename)\<close>: the name is resolved in the current directory, which
  \<open>os.chdir\<close> has set to the job's directory \<open>cwd\<close>. A file is stored under its name, a
  directory as an empty entry with a slash, a name that is not there raises.
\<close>

definition zip_write ::
  "folder \<Rightarrow> string \<Rightarrow> (string \<times> string) list \<Rightarrow> exn + (string \<times> string) list" where
  "zip_write cwd name z =
     (case map_of cwd name of
        None \<Rightarrow> Inl FileNotFoundError
      | Some (File bytes) \<Rightarrow> Inr (z @ [(name, bytes)])
      | Some (Dir sub) \<Rightarrow> Inr (z @ [(name @ ''/'', [])]))"

text \<open>The inner loop, over the file names of one directory of the walk.\<close>

fun write_files ::
  "folder \<Rightarrow> string list \<Rightarrow> (string \<times> string) list \<Rightarrow> exn + (string \<times> string) list" where
  "write_files cwd [] z = Inr z"
| "write_files cwd (name # names) z =
     (if \<not> endswith name ''.json'' then
        (case zip_write cwd name z of
           Inl x \<Rightarrow> Inl x
         | Inr z1 \<Rightarrow> write_files cwd names z1)
      else write_files cwd names z)"

text \<open>The outer loop, over the triples of the walk.\<close>

fun write_walk ::
  "folder \<Rightarrow> (string \<times> string list \<times> string list) list \<Rightarrow> (string \<times> string) list
     \<Rightarrow> exn + (string \<times> string) list" where
  "write_walk cwd [] z = Inr z"
| "write_walk cwd ((dirpath, dirnames, filenames) # rest) z =
     (case write_files cwd filenames z of
        Inl x \<Rightarrow> Inl x
      | Inr z1 \<Rightarrow> write_walk cwd rest z1)"

definition get_download_model :: "folder \<Rightarrow> string \<Rightarrow> answer" where
  "get_download_model fs cid =
     (case map_of fs cid of
        None \<Rightarrow> Inl (Raise FileNotFoundError)
      | Some (File b) \<Rightarrow> Inl (Raise NotADirectoryError)
      | Some (Dir es) \<Rightarrow>
          (case write_walk es (walk_node ''.'' (Dir es)) [] of
             Inl x \<Rightarrow> Inl (Raise x)
           | Inr z \<Rightarrow> Inr (ZipFile z)))"

section \<open>Result queries\<close>

text \<open>
  A query answers and leaves the list of the arrays it asked a reader for, in the order
  of the calls. Reporting times and counts reads no array.
\<close>

datatype array_read =
    LayerRead pyfloat int
  | SeriesRead int int int
  | BudgetTotimRead pyfloat bool
  | BudgetIdxRead int bool
  | ConcentrationRead int pyfloat int

type_synonym traced = "answer \<times> array_read list"

definition permitted_types :: "string list" where
  "permitted_types = [''head'', ''drawdown'']"

text \<open>Lines 325 to 335, and the same lines 338 to 347 for the drawdown reader.\<close>

definition layer_slice :: "layer_reader \<Rightarrow> pyfloat \<Rightarrow> int \<Rightarrow> traced" where
  "layer_slice reader totim layer =
     (let times = read_times reader in
      if \<not> py_in totim times then (Inl (Abort 404 (TotimNotAvailable totim times)), [])
      else
        (let nlay = read_number_of_layers reader in
         if layer \<ge> nlay then (Inl (Abort 404 (LayerBound nlay)), [])
         else
           (case read_layer reader totim layer of
              Inl x \<Rightarrow> (Inl (Raise x), [LayerRead totim layer])
            | Inr a \<Rightarrow> (Inr (ArrayJson a), [LayerRead totim layer]))))"

definition get_results_head_drawdown ::
  "env \<Rightarrow> folder \<Rightarrow> string \<Rightarrow> string \<Rightarrow> string \<Rightarrow> string \<Rightarrow> traced" where
  "get_results_head_drawdown e fs cid t layer totim =
     (if \<not> exists_in_job fs cid ''configuration.json''
      then (Inl (Abort 404 (CalculationNotFound cid)), [])
      else
     (case py_float e totim of
        None \<Rightarrow> (Inl (Raise ValueError), [])
      | Some totim' \<Rightarrow>
     (case py_int e layer of
        None \<Rightarrow> (Inl (Raise ValueError), [])
      | Some layer' \<Rightarrow>
          if t \<notin> set permitted_types
          then (Inl (Abort 404 (TypeNotPermitted t permitted_types)), [])
          else if t = ''head'' then layer_slice (ReadHead e (job_folder fs cid)) totim' layer'
          else layer_slice (ReadDrawdown e (job_folder fs cid)) totim' layer')))"

definition time_series :: "layer_reader \<Rightarrow> int \<Rightarrow> int \<Rightarrow> int \<Rightarrow> traced" where
  "time_series reader layer row col =
     (case read_ts reader layer row col of
        Inl x \<Rightarrow> (Inl (Raise x), [SeriesRead layer row col])
      | Inr a \<Rightarrow> (Inr (ArrayJson a), [SeriesRead layer row col]))"

definition get_results_time_series ::
  "env \<Rightarrow> folder \<Rightarrow> string \<Rightarrow> string \<Rightarrow> string \<Rightarrow> string \<Rightarrow> string \<Rightarrow> traced" where
  "get_results_time_series e fs cid t layer row column =
     (if \<not> exists_in_job fs cid ''configuration.json''
      then (Inl (Abort 404 (CalculationNotFound cid)), [])
      else
     (case py_int e layer of
        None \<Rightarrow> (Inl (Raise ValueError), [])
      | Some layer' \<Rightarrow>
     (case py_int e row of
        None \<Rightarrow> (Inl (Raise ValueError), [])
      | Some row' \<Rightarrow>
     (case py_int e column of
        None \<Rightarrow> (Inl (Raise ValueError), [])
      | Some col \<Rightarrow>
          if t \<notin> set permitted_types
          then (Inl (Abort 404 (TypeNotPermitted t permitted_types)), [])
          else if t = ''head'' then time_series (ReadHead e (job_folder fs cid)) layer' row' col
          else time_series (ReadDrawdown e (job_folder fs cid)) layer' row' col))))"

text \<open>The dict of a budget answer: the cumulative value is read first.\<close>

definition budget_pair ::
  "(bool \<Rightarrow> exn + json) \<Rightarrow> (bool \<Rightarrow> array_read) \<Rightarrow> traced" where
  "budget_pair rd ev =
     (case rd False of
        Inl x \<Rightarrow> (Inl (Raise x), [ev False])
      | Inr cumulative \<Rightarrow>
     (case rd True of
        Inl x \<Rightarrow> (Inl (Raise x), [ev False, ev True])
      | Inr incremental \<Rightarrow> (Inr (BudgetJson cumulative incremental), [ev False, ev True])))"

definition get_results_budget_by_totim :: "env \<Rightarrow> folder \<Rightarrow> string \<Rightarrow> string \<Rightarrow> traced" where
  "get_results_budget_by_totim e fs cid totim =
     (if \<not> exists_in_job fs cid ''configuration.json''
      then (Inl (Abort 404 (CalculationNotFound cid)), [])
      else
     (case py_float e totim of
        None \<Rightarrow> (Inl (Raise ValueError), [])
      | Some totim' \<Rightarrow>
         (let budget = ReadBudget e (job_folder fs cid);
              times = budget_read_times budget
          in if \<not> py_in totim' times
             then (Inl (Abort 404 (TotimNotAvailable totim' times)), [])
             else budget_pair (read_budget_by_totim budget totim') (BudgetTotimRead totim'))))"

definition get_results_budget_by_idx :: "env \<Rightarrow> folder \<Rightarrow> string \<Rightarrow> string \<Rightarrow> traced" where
  "get_results_budget_by_idx e fs cid idx =
     (if \<not> exists_in_job fs cid ''configuration.json''
      then (Inl (Abort 404 (CalculationNotFound cid)), [])
      else
     (case py_int e idx of
        None \<Rightarrow> (Inl (Raise ValueError), [])
      | Some idx' \<Rightarrow>
         (let budget = ReadBudget e (job_folder fs cid);
              times = budget_read_times budget
          in if idx' \<ge> int (length times)
             then (Inl (Abort 404 (TotimKeyNotAvailable idx' 0 (int (length times) - 1))), [])
             else budget_pair (read_budget_by_idx budget idx') (BudgetIdxRead idx'))))"

definition get_results_concentration ::
  "env \<Rightarrow> folder \<Rightarrow> string \<Rightarrow> string \<Rightarrow> string \<Rightarrow> string \<Rightarrow> traced" where
  "get_results_concentration e fs cid substance layer totim =
     (if \<not> exists_in_job fs cid ''configuration.json''
      then (Inl (Abort 404 (CalculationNotFound cid)), [])
      else
     (case py_int e layer of
        None \<Rightarrow> (Inl (Raise ValueError), [])
      | Some layer' \<Rightarrow>
     (case py_int e substance of
        None \<Rightarrow> (Inl (Raise ValueError), [])
      | Some substance' \<Rightarrow>
     (case py_float e totim of
        None \<Rightarrow> (Inl (Raise ValueError), [])
      | Some totim' \<Rightarrow>
         (let concentrations = ReadConcentration e (job_folder fs cid);
              nsub = read_number_of_substances concentrations
          in if substance' \<ge> nsub
             then (Inl (Abort 404 (SubstanceNotAvailable substance' nsub)), [])
             else
         (let times = concentration_read_times concentrations
          in if \<not> py_in totim' times
             then (Inl (Abort 404 (TotimNotAvailable totim' times)), [])
             else
         (let nlay = concentration_read_number_of_layers concentrations
          in if layer' \<ge> nlay
             then (Inl (Abort 404 (LayerBound nlay)), [])
             else
               (case concentration_read_layer concentrations substance' totim' layer' of
                  Inl x \<Rightarrow> (Inl (Raise x), [ConcentrationRead substance' totim' layer'])
                | Inr a \<Rightarrow>
                    (Inr (ArrayJson a), [ConcentrationRead substance' totim' layer'])))))))))"

section \<open>A concrete setting\<close>

text \<open>
  One environment and a few worlds on which the theorems below are applied. The codec is
  ASCII, on which the usual encodings agree; the parsers know one document and a few
  numerals.
\<close>

definition ascii :: "string \<Rightarrow> string option" where
  "ascii bytes = (if list_all (\<lambda>c. (of_char c :: nat) < 128) bytes then Some bytes else None)"

definition sim_doc :: json where
  "sim_doc = JObj [(''calculation_id'', JStr ''sim-001''), (''data'', JObj [(''mf'', JObj [])])]"

definition sim_bytes :: string where
  "sim_bytes = ''document of sim-001''"

definition sim_parse :: "string \<Rightarrow> json option" where
  "sim_parse bytes = (if bytes = sim_bytes then Some sim_doc else None)"

definition sim_layers :: layer_reader where
  "sim_layers =
     \<lparr>read_times = [Finite 1, Finite 2],
      read_number_of_layers = 1,
      read_layer = (\<lambda>totim layer. Inr (JArr [JInt layer])),
      read_ts = (\<lambda>layer row col. Inr (JArr [JInt layer, JInt row, JInt col]))\<rparr>"

definition sim_budget :: budget_reader where
  "sim_budget =
     \<lparr>budget_read_times = [Finite 1, Finite 2],
      read_budget_by_totim = (\<lambda>totim incremental. Inr (JBool incremental)),
      read_budget_by_idx = (\<lambda>idx incremental. Inr (JInt idx))\<rparr>"

definition sim_concentration :: concentration_reader where
  "sim_concentration =
     \<lparr>read_number_of_substances = 1,
      concentration_read_times = [Finite 1, Finite 2],
      concentration_read_number_of_layers = 1,
      concentration_read_layer = (\<lambda>substance totim layer. Inr (JArr [JInt substance, JInt layer]))\<rparr>"

definition sim_env :: env where
  "sim_env =
     \<lparr>codec = ascii,
      file_json = sim_parse,
      json_file = (\<lambda>d. sim_bytes),
      body_json = sim_parse,
      schema_check = (\<lambda>k x. None),
      uuid4 = ''0f8b'',
      clock = (10, 11),
      py_int = map_of [(''0'', 0), (''1'', 1), (''5'', 5), (''-1'', - 1)],
      py_float = map_of [(''1.0'', Finite 1), (''3.5'', Finite (7 / 2)), (''nan'', NaN)],
      ReadHead = (\<lambda>path. sim_layers),
      ReadDrawdown = (\<lambda>path. sim_layers),
      ReadBudget = (\<lambda>path. sim_budget),
      ReadConcentration = (\<lambda>path. sim_concentration)\<rparr>"

text \<open>The same environment with a schema server that cannot be reached.\<close>

definition offline_env :: env where
  "offline_env = sim_env\<lparr>schema_check := (\<lambda>k x. Some URLError)\<rparr>"

definition sim_row :: calculation where
  "sim_row = \<lparr>calculation_id = ''sim-001'', state = 0, message = None,
              created_at = 3, updated_at = 3\<rparr>"

definition fresh_world :: world where
  "fresh_world = \<lparr>modflow = [], uploads = [], calculations = []\<rparr>"

text \<open>A job that was submitted and has no marker file yet.\<close>

definition queued_world :: world where
  "queued_world =
     \<lparr>modflow = [(''sim-001'', Dir [(''configuration.json'', File sim_bytes)])],
      uploads = [], calculations = [sim_row]\<rparr>"

text \<open>The same job with a marker file, of the given content, and an output file.\<close>

definition marked_world :: "string \<Rightarrow> world" where
  "marked_world marker =
     \<lparr>modflow = [(''sim-001'', Dir [(''configuration.json'', File sim_bytes),
                                    (''state.log'', File marker),
                                    (''mf.list'', File ''ok'')])],
      uploads = [], calculations = [sim_row]\<rparr>"

definition json_request :: request where
  "json_request = \<lparr>request_method = ''POST'', content_type = Some ''application/json'',
                    files = [], body = sim_bytes\<rparr>"

definition file_request :: request where
  "file_request =
     \<lparr>request_method = ''POST'', content_type = Some ''multipart/form-data; boundary=x'',
      files = [(''file'', \<lparr>filename = ''sim.json'', payload = sim_bytes\<rparr>)], body = []\<rparr>"

section \<open>Unfolding the definitions\<close>

lemmas setting_defs =
  sim_env_def offline_env_def sim_parse_def sim_doc_def sim_bytes_def sim_row_def
  sim_layers_def sim_budget_def sim_concentration_def ascii_def
  fresh_world_def queued_world_def marked_world_def json_request_def file_request_def

lemmas fs_defs =
  exists_in_job_def job_entry_def job_folder_def rmtree_def makedirs_def write_job_file_def
  remove_entry_def put_entry_def read_text_def read_json_def

lemmas upload_defs =
  upload_file_def upload_inline_def upload_multipart_def is_valid_def purge_prior_def
  create_if_absent_def insert_new_calculation_def

section \<open>Resubmission of an inline document\<close>

lemma read_text_exists:
  "read_text e fs cid name = Inr txt \<Longrightarrow> exists_in_job fs cid name"
  by (auto simp: read_text_def exists_in_job_def split: option.splits)

lemma purge_prior_finished:
  assumes "exists_in_job (modflow w) cid ''configuration.json''"
    and "read_text e (modflow w) cid ''state.log'' = Inr ''200''"
  shows "purge_prior e cid w = (Inr (), w)"
  using assms read_text_exists[OF assms(2)] by (simp add: purge_prior_def)

lemma create_if_absent_present:
  "exists_in_job (modflow w) cid ''configuration.json'' \<Longrightarrow>
   create_if_absent e content cid w = (Inr (), w)"
  by (simp add: create_if_absent_def)

lemma upload_inline_identity:
  "upload_inline e b w0 = (Inr a, w1) \<Longrightarrow>
   \<exists>content cid. body_json e b = Some content
      \<and> py_get content ''calculation_id'' = Inr (JStr cid)
      \<and> a = Identity 200 cid (''/'' @ cid)"
  by (auto simp: upload_inline_def
           split: option.splits sum.splits bool.splits json.splits prod.splits)

lemma map_of_remove_entry: "map_of (remove_entry k es) k = None"
  by (induction es) (auto simp: remove_entry_def)

lemma job_entry_rmtree:
  "exists_in_job fs cid name \<Longrightarrow> job_entry (rmtree fs cid) cid name' = None"
  by (auto simp: exists_in_job_def job_entry_def rmtree_def map_of_remove_entry
           split: option.splits node.splits)

text \<open>
  C2. An inline resubmission of an id whose configuration file exists and whose marker
  file reads \<open>200\<close> leaves the world as it is (no directory deleted or created, no
  record inserted) and answers with the identity of the job, status 200, the id and the
  link \<open>/id\<close>; every inline submission of the document that is answered at all, the
  original one included, is answered with that same identity.
\<close>

theorem resubmit_finished_idempotent:
  assumes "request_method r = ''POST''"
    and "content_type r = Some ct"
    and "\<not> contains ct ''multipart/form-data''"
    and "contains ct ''application/json''"
    and "body_json e (body r) = Some content"
    and "is_valid e content = Inr True"
    and "py_get content ''calculation_id'' = Inr (JStr cid)"
    and "exists_in_job (modflow w) cid ''configuration.json''"
    and "read_text e (modflow w) cid ''state.log'' = Inr ''200''"
  shows "upload_file e r w = (Inr (Identity 200 cid (''/'' @ cid)), w)
       \<and> (\<forall>w0 a w1. upload_file e r w0 = (Inr a, w1) \<longrightarrow> a = Identity 200 cid (''/'' @ cid))"
proof
  have "upload_file e r w = upload_inline e (body r) w"
    using assms(1-4) by (simp add: upload_file_def)
  then show "upload_file e r w = (Inr (Identity 200 cid (''/'' @ cid)), w)"
    using assms(5-9) by (simp add: upload_inline_def purge_prior_finished create_if_absent_present)
next
  show "\<forall>w0 a w1. upload_file e r w0 = (Inr a, w1) \<longrightarrow> a = Identity 200 cid (''/'' @ cid)"
  proof (intro allI impI)
    fix w0 a w1
    assume "upload_file e r w0 = (Inr a, w1)"
    then have "upload_inline e (body r) w0 = (Inr a, w1)"
      using assms(1-4) by (simp add: upload_file_def)
    from upload_inline_identity[OF this] assms(5,7) show "a = Identity 200 cid (''/'' @ cid)"
      by auto
  qed
qed

theorem resubmit_finished_idempotent_witness:
  "upload_file sim_env json_request (marked_world ''200'')
     = (Inr (Identity 200 ''sim-001'' ''/sim-001''), marked_world ''200'')"
proof -
  have h1: "request_method json_request = ''POST''" by (simp add: json_request_def)
  have h2: "content_type json_request = Some ''application/json''" by (simp add: json_request_def)
  have h3: "\<not> contains ''application/json'' ''multipart/form-data''" by simp
  have h4: "contains ''application/json'' ''application/json''" by simp
  have h5: "body_json sim_env (body json_request) = Some sim_doc"
    by (simp add: setting_defs)
  have h6: "is_valid sim_env sim_doc = Inr True"
    by (simp add: is_valid_def setting_defs)
  have h7: "py_get sim_doc ''calculation_id'' = Inr (JStr ''sim-001'')"
    by (simp add: setting_defs)
  have h8: "exists_in_job (modflow (marked_world ''200'')) ''sim-001'' ''configuration.json''"
    by (simp add: setting_defs fs_defs)
  have h9: "read_text sim_env (modflow (marked_world ''200'')) ''sim-001'' ''state.log'' = Inr ''200''"
    by (simp add: setting_defs fs_defs)
  have "''/'' @ ''sim-001'' = ''/sim-001''" by simp
  with conjunct1[OF resubmit_finished_idempotent[OF h1 h2 h3 h4 h5 h6 h7 h8 h9]]
  show ?thesis by (simp only:)
qed

text \<open>
  C1. What the code does on an inline resubmission of an id whose configuration file
  exists and whose marker file is absent: it deletes the directory, and the read of the
  marker file that follows raises FileNotFoundError. Nothing is created again, no record
  is inserted and no identity is returned: the directory stays deleted and the registry
  is as before.
\<close>

theorem resubmit_abandoned_raises:
  assumes "request_method r = ''POST''"
    and "content_type r = Some ct"
    and "\<not> contains ct ''multipart/form-data''"
    and "contains ct ''application/json''"
    and "body_json e (body r) = Some content"
    and "is_valid e content = Inr True"
    and "py_get content ''calculation_id'' = Inr (JStr cid)"
    and "exists_in_job (modflow w) cid ''configuration.json''"
    and "\<not> exists_in_job (modflow w) cid ''state.log''"
  shows "upload_file e r w = (Inl (Raise FileNotFoundError), w\<lparr>modflow := rmtree (modflow w) cid\<rparr>)
       \<and> map_of (rmtree (modflow w) cid) cid = None"
proof
  have "read_text e (rmtree (modflow w) cid) cid ''state.log'' = Inl FileNotFoundError"
    using job_entry_rmtree[OF assms(8)] by (simp add: read_text_def)
  then have "purge_prior e cid w = (Inl FileNotFoundError, w\<lparr>modflow := rmtree (modflow w) cid\<rparr>)"
    using assms(8,9) by (simp add: purge_prior_def)
  moreover have "upload_file e r w = upload_inline e (body r) w"
    using assms(1-4) by (simp add: upload_file_def)
  ultimately show "upload_file e r w
      = (Inl (Raise FileNotFoundError), w\<lparr>modflow := rmtree (modflow w) cid\<rparr>)"
    using assms(5-7) by (simp add: upload_inline_def)
next
  show "map_of (rmtree (modflow w) cid) cid = None"
    using assms(8)
    by (auto simp: exists_in_job_def job_entry_def rmtree_def map_of_remove_entry
             split: option.splits node.splits)
qed

theorem resubmit_abandoned_raises_witness:
  "upload_file sim_env json_request queued_world
     = (Inl (Raise FileNotFoundError), queued_world\<lparr>modflow := []\<rparr>)
   \<and> records_of (calculations (snd (upload_file sim_env json_request queued_world))) ''sim-001'' = 1"
proof -
  have h1: "request_method json_request = ''POST''" by (simp add: json_request_def)
  have h2: "content_type json_request = Some ''application/json''" by (simp add: json_request_def)
  have h3: "\<not> contains ''application/json'' ''multipart/form-data''" by simp
  have h4: "contains ''application/json'' ''application/json''" by simp
  have h5: "body_json sim_env (body json_request) = Some sim_doc"
    by (simp add: setting_defs)
  have h6: "is_valid sim_env sim_doc = Inr True"
    by (simp add: is_valid_def setting_defs)
  have h7: "py_get sim_doc ''calculation_id'' = Inr (JStr ''sim-001'')"
    by (simp add: setting_defs)
  have h8: "exists_in_job (modflow queued_world) ''sim-001'' ''configuration.json''"
    by (simp add: setting_defs fs_defs)
  have h9: "\<not> exists_in_job (modflow queued_world) ''sim-001'' ''state.log''"
    by (simp add: setting_defs fs_defs)
  have r: "rmtree (modflow queued_world) ''sim-001'' = []"
    by (simp add: setting_defs fs_defs)
  have c: "records_of (calculations queued_world) ''sim-001'' = 1"
    by (simp add: records_of_def setting_defs)
  from conjunct1[OF resubmit_abandoned_raises[OF h1 h2 h3 h4 h5 h6 h7 h8 h9]] r c
  show ?thesis by simp
qed

section \<open>Validation and the two delivery shapes\<close>


lemma is_valid_mf_raises:
  assumes "py_get content ''data'' = Inr d" "py_get d ''mf'' = Inr mf" "py_get d ''mt'' = Inr mt"
    and "schema_check e MfPackages mf = Some x"
  shows "is_valid e content = (if x = ValidationError then Inr False else Inl x)"
  using assms by (simp add: is_valid_def)

lemma upload_inline_rejected:
  assumes "body_json e b = Some content" and "is_valid e content \<noteq> Inr True"
  shows "upload_inline e b w =
     (Inl (case is_valid e content of Inl x \<Rightarrow> Raise x | Inr v \<Rightarrow> Abort 422 ContentNotValid), w)"
  using assms by (auto simp: upload_inline_def split: sum.splits bool.splits)

lemma upload_multipart_rejected:
  assumes "map_of fl ''file'' = Some u" and "filename u \<noteq> []"
    and "file_json e (payload u) = Some content" and "is_valid e content \<noteq> Inr True"
  shows "fst (upload_multipart e fl w) =
           Inl (case is_valid e content of Inl x \<Rightarrow> Raise x | Inr v \<Rightarrow> Abort 422 SchemaMismatch)
       \<and> modflow (snd (upload_multipart e fl w)) = modflow w
       \<and> calculations (snd (upload_multipart e fl w)) = calculations w"
  using assms by (auto simp: upload_multipart_def Let_def split: sum.splits bool.splits)




lemma is_valid_raises_iff:
  "is_valid e content = Inl x \<longleftrightarrow>
     (\<exists>d mf mt. py_get content ''data'' = Inr d \<and> py_get d ''mf'' = Inr mf
        \<and> py_get d ''mt'' = Inr mt \<and> x \<noteq> ValidationError
        \<and> (schema_check e MfPackages mf = Some x
             \<or> (schema_check e MfPackages mf = None \<and> truthy mt
                 \<and> schema_check e MtPackages mt = Some x)))"
  by (auto simp: is_valid_def split: sum.splits option.splits if_splits)

text \<open>
  C4, as the code has it. A submission whose document \<open>is_valid\<close> does not accept creates
  neither a directory nor a registry record, whichever way it was delivered. When
  \<open>is_valid\<close> returns \<open>False\<close> (the document has no \<open>get\<close> where one is called, or
  jsonschema raised ValidationError) the submission is rejected with status 422. When
  fetching, parsing or applying the schema raised anything else, \<open>is_valid\<close> does not
  catch it: the exception escapes the handler, it is no ValidationError and no status
  422.
\<close>

theorem validation_failure_no_effects:
  assumes "request_method r = ''POST''"
    and "content_type r = Some ct"
    and "(contains ct ''multipart/form-data'' \<and> map_of (files r) ''file'' = Some u
            \<and> filename u \<noteq> [] \<and> file_json e (payload u) = Some content)
         \<or> (\<not> contains ct ''multipart/form-data'' \<and> contains ct ''application/json''
            \<and> body_json e (body r) = Some content)"
    and "is_valid e content \<noteq> Inr True"
  shows "(case is_valid e content of
            Inl x \<Rightarrow> fst (upload_file e r w) = Inl (Raise x) \<and> x \<noteq> ValidationError
          | Inr v \<Rightarrow> fst (upload_file e r w) = Inl (Abort 422 SchemaMismatch)
                    \<or> fst (upload_file e r w) = Inl (Abort 422 ContentNotValid))
       \<and> modflow (snd (upload_file e r w)) = modflow w
       \<and> calculations (snd (upload_file e r w)) = calculations w"
proof -
  have nv: "\<And>x. is_valid e content = Inl x \<Longrightarrow> x \<noteq> ValidationError"
    by (auto simp: is_valid_raises_iff)
  from assms(3) show ?thesis
  proof
    assume m: "contains ct ''multipart/form-data'' \<and> map_of (files r) ''file'' = Some u
            \<and> filename u \<noteq> [] \<and> file_json e (payload u) = Some content"
    then have "upload_file e r w = upload_multipart e (files r) w"
      using assms(1,2) by (simp add: upload_file_def)
    with m upload_multipart_rejected[of "files r" u e content w] assms(4) nv
    show ?thesis by (auto split: sum.splits)
  next
    assume j: "\<not> contains ct ''multipart/form-data'' \<and> contains ct ''application/json''
            \<and> body_json e (body r) = Some content"
    then have "upload_file e r w = upload_inline e (body r) w"
      using assms(1,2) by (simp add: upload_file_def)
    with j upload_inline_rejected[of e "body r" content w] assms(4) nv
    show ?thesis by (auto split: sum.splits)
  qed
qed

theorem validation_failure_no_effects_witness:
  "fst (upload_file offline_env json_request fresh_world) = Inl (Raise URLError)
   \<and> modflow (snd (upload_file offline_env json_request fresh_world)) = []
   \<and> calculations (snd (upload_file offline_env json_request fresh_world)) = []"
proof -
  have h1: "request_method json_request = ''POST''" by (simp add: json_request_def)
  have h2: "content_type json_request = Some ''application/json''" by (simp add: json_request_def)
  have h3: "(contains ''application/json'' ''multipart/form-data''
              \<and> map_of (files json_request) ''file'' = Some \<lparr>filename = [], payload = []\<rparr>
              \<and> filename \<lparr>filename = [], payload = []\<rparr> \<noteq> []
              \<and> file_json offline_env (payload \<lparr>filename = [], payload = []\<rparr>) = Some sim_doc)
          \<or> (\<not> contains ''application/json'' ''multipart/form-data''
              \<and> contains ''application/json'' ''application/json''
              \<and> body_json offline_env (body json_request) = Some sim_doc)"
    by (simp add: setting_defs)
  have v: "is_valid offline_env sim_doc = Inl URLError"
    by (simp add: is_valid_def setting_defs)
  then have h4: "is_valid offline_env sim_doc \<noteq> Inr True" by simp
  from validation_failure_no_effects[OF h1 h2 h3 h4, of fresh_world] v
  show ?thesis by (simp add: fresh_world_def)
qed

text \<open>
  C4 as stated fails: with a schema server that cannot be reached, \<open>is_valid\<close> raises
  URLError instead of returning \<open>False\<close>, and the submission ends with that exception,
  not with a client error.
\<close>

theorem validator_unreachable_counterexample:
  "schema_check offline_env MfPackages (JObj []) = Some URLError
   \<and> is_valid offline_env sim_doc = Inl URLError
   \<and> upload_file offline_env json_request fresh_world = (Inl (Raise URLError), fresh_world)
   \<and> fst (upload_file offline_env file_request fresh_world) = Inl (Raise URLError)"
  by (simp add: upload_defs setting_defs fs_defs)




section \<open>Selectors of the result queries\<close>


lemmas query_defs =
  get_results_head_drawdown_def layer_slice_def get_results_time_series_def time_series_def
  get_results_budget_by_totim_def get_results_budget_by_idx_def budget_pair_def
  get_results_concentration_def permitted_types_def py_in_def py_eq_def



lemma py_in_iff: "py_in x xs \<longleftrightarrow> x \<noteq> NaN \<and> x \<in> set xs"
  by (auto simp: py_in_def py_eq_def list_ex_iff)

text \<open>
  C5, as the code has it. A layer-slice query of an existing job with a permitted type
  and a requested layer at or above the layer count of the reader is rejected with status
  404 before any array is read, whether or not the time is one of the reader's. The time
  is tested first, so the rejection carries the layer bound when the time is among the
  reported times, and the requested time with the reported list when it is not.
\<close>

theorem layer_rejected_before_read:
  assumes "exists_in_job fs cid ''configuration.json''"
    and "py_float e totim = Some x"
    and "py_int e layer = Some l"
    and "t \<in> set permitted_types"
    and "reader = (if t = ''head'' then ReadHead e (job_folder fs cid)
                   else ReadDrawdown e (job_folder fs cid))"
    and "l \<ge> read_number_of_layers reader"
  shows "get_results_head_drawdown e fs cid t layer totim =
           (Inl (Abort 404 (if py_in x (read_times reader)
                            then LayerBound (read_number_of_layers reader)
                            else TotimNotAvailable x (read_times reader))), [])"
proof (cases "t = ''head''")
  case True
  with assms show ?thesis
    by (simp add: get_results_head_drawdown_def layer_slice_def Let_def)
next
  case False
  with assms show ?thesis
    by (simp add: get_results_head_drawdown_def layer_slice_def Let_def)
qed

theorem layer_rejected_before_read_witness:
  "get_results_head_drawdown sim_env (modflow (marked_world ''200'')) ''sim-001'' ''head'' ''5'' ''1.0''
     = (Inl (Abort 404 (LayerBound 1)), [])"
proof -
  have h1: "exists_in_job (modflow (marked_world ''200'')) ''sim-001'' ''configuration.json''"
    by (simp add: setting_defs fs_defs)
  have h2: "py_float sim_env ''1.0'' = Some (Finite 1)" by (simp add: setting_defs)
  have h3: "py_int sim_env ''5'' = Some 5" by (simp add: setting_defs)
  have h4: "''head'' \<in> set permitted_types" by (simp add: permitted_types_def)
  have h5: "sim_layers = (if ''head'' = ''head''
        then ReadHead sim_env (job_folder (modflow (marked_world ''200'')) ''sim-001'')
        else ReadDrawdown sim_env (job_folder (modflow (marked_world ''200'')) ''sim-001''))"
    by (simp add: sim_env_def)
  have h6: "5 \<ge> read_number_of_layers sim_layers" by (simp add: sim_layers_def)
  have "py_in (Finite 1) (read_times sim_layers)" by (simp add: sim_layers_def py_in_def py_eq_def)
  with layer_rejected_before_read[OF h1 h2 h3 h4 h5 h6] show ?thesis
    by (simp add: sim_layers_def)
qed

text \<open>
  C5 as stated fails on the message: with layer 5 of 1 and a time that the reader does
  not report, the rejection is the one of the time, not the layer bound.
\<close>

theorem layer_message_counterexample:
  "get_results_head_drawdown sim_env (modflow (marked_world ''200'')) ''sim-001'' ''head'' ''5'' ''3.5''
     = (Inl (Abort 404 (TotimNotAvailable (Finite (7 / 2)) [Finite 1, Finite 2])), [])
   \<and> read_number_of_layers (ReadHead sim_env (job_folder (modflow (marked_world ''200'')) ''sim-001'')) = 1
   \<and> py_int sim_env ''5'' = Some 5"
  by (simp add: query_defs setting_defs fs_defs)

lemma budget_pair_no_abort: "fst (budget_pair rd ev) \<noteq> Inl (Abort c m)"
  by (simp add: budget_pair_def split: sum.splits)

text \<open>
  C6, as the code has it. For an existing job:
  \<^item> a layer-slice query with a permitted type and a reported time is rejected with the
    layer bound exactly when the layer is at or above the layer count; a layer below
    it, negative ones included, is handed to the reader;
  \<^item> a concentration query is rejected with the substance count exactly when the
    substance is at or above that count, and, for a substance below it and a reported
    time, with the layer bound exactly when the layer is at or above the layer count;
  \<^item> a budget query by index is rejected when the index is at or above the number of
    times, with the bounds 0 and that number less one; an index below it, negative
    ones included, is handed to the reader;
  \<^item> a time-series query with a permitted type tests none of layer, row and column: it
    hands them to the reader as they are.
\<close>

theorem selector_checks:
  fixes e :: env and fs :: folder and cid :: string
  defines "heads t \<equiv> (if t = ''head'' then ReadHead e (job_folder fs cid)
                        else ReadDrawdown e (job_folder fs cid))"
    and "conc \<equiv> ReadConcentration e (job_folder fs cid)"
    and "btimes \<equiv> budget_read_times (ReadBudget e (job_folder fs cid))"
  assumes "exists_in_job fs cid ''configuration.json''"
  shows "(py_float e totim = Some x \<and> py_int e layer = Some l \<and> t \<in> set permitted_types
            \<and> py_in x (read_times (heads t)) \<longrightarrow>
          (fst (get_results_head_drawdown e fs cid t layer totim)
               = Inl (Abort 404 (LayerBound (read_number_of_layers (heads t))))
             \<longleftrightarrow> l \<ge> read_number_of_layers (heads t))
          \<and> (l < read_number_of_layers (heads t) \<longrightarrow>
               snd (get_results_head_drawdown e fs cid t layer totim) = [LayerRead x l]))
       \<and> (py_int e layer = Some l \<and> py_int e substance = Some s \<and> py_float e totim = Some x \<longrightarrow>
          (fst (get_results_concentration e fs cid substance layer totim)
               = Inl (Abort 404 (SubstanceNotAvailable s (read_number_of_substances conc)))
             \<longleftrightarrow> s \<ge> read_number_of_substances conc)
          \<and> (s < read_number_of_substances conc \<and> py_in x (concentration_read_times conc) \<longrightarrow>
               (fst (get_results_concentration e fs cid substance layer totim)
                    = Inl (Abort 404 (LayerBound (concentration_read_number_of_layers conc)))
                  \<longleftrightarrow> l \<ge> concentration_read_number_of_layers conc)
               \<and> (l < concentration_read_number_of_layers conc \<longrightarrow>
                    snd (get_results_concentration e fs cid substance layer totim)
                      = [ConcentrationRead s x l])))
       \<and> (py_int e idx = Some i \<longrightarrow>
          (i \<ge> int (length btimes) \<longrightarrow>
             get_results_budget_by_idx e fs cid idx
               = (Inl (Abort 404 (TotimKeyNotAvailable i 0 (int (length btimes) - 1))), []))
          \<and> (i < int (length btimes) \<longrightarrow>
             get_results_budget_by_idx e fs cid idx
               = budget_pair (read_budget_by_idx (ReadBudget e (job_folder fs cid)) i)
                   (BudgetIdxRead i)))
       \<and> (py_int e layer = Some l \<and> py_int e row = Some r \<and> py_int e column = Some c
            \<and> t \<in> set permitted_types \<longrightarrow>
          get_results_time_series e fs cid t layer row column = time_series (heads t) l r c
          \<and> snd (get_results_time_series e fs cid t layer row column) = [SeriesRead l r c])"
proof (intro conjI)
  show "py_float e totim = Some x \<and> py_int e layer = Some l \<and> t \<in> set permitted_types
            \<and> py_in x (read_times (heads t)) \<longrightarrow>
          (fst (get_results_head_drawdown e fs cid t layer totim)
               = Inl (Abort 404 (LayerBound (read_number_of_layers (heads t))))
             \<longleftrightarrow> l \<ge> read_number_of_layers (heads t))
          \<and> (l < read_number_of_layers (heads t) \<longrightarrow>
               snd (get_results_head_drawdown e fs cid t layer totim) = [LayerRead x l])"
    using assms(4)
    by (cases "t = ''head''")
       (auto simp: heads_def get_results_head_drawdown_def layer_slice_def Let_def
             split: sum.splits)
next
  show "py_int e layer = Some l \<and> py_int e substance = Some s \<and> py_float e totim = Some x \<longrightarrow>
          (fst (get_results_concentration e fs cid substance layer totim)
               = Inl (Abort 404 (SubstanceNotAvailable s (read_number_of_substances conc)))
             \<longleftrightarrow> s \<ge> read_number_of_substances conc)
          \<and> (s < read_number_of_substances conc \<and> py_in x (concentration_read_times conc) \<longrightarrow>
               (fst (get_results_concentration e fs cid substance layer totim)
                    = Inl (Abort 404 (LayerBound (concentration_read_number_of_layers conc)))
                  \<longleftrightarrow> l \<ge> concentration_read_number_of_layers conc)
               \<and> (l < concentration_read_number_of_layers conc \<longrightarrow>
                    snd (get_results_concentration e fs cid substance layer totim)
                      = [ConcentrationRead s x l]))"
    using assms(4)
    by (auto simp: conc_def get_results_concentration_def Let_def split: sum.splits)
next
  show "py_int e idx = Some i \<longrightarrow>
          (i \<ge> int (length btimes) \<longrightarrow>
             get_results_budget_by_idx e fs cid idx
               = (Inl (Abort 404 (TotimKeyNotAvailable i 0 (int (length btimes) - 1))), []))
          \<and> (i < int (length btimes) \<longrightarrow>
             get_results_budget_by_idx e fs cid idx
               = budget_pair (read_budget_by_idx (ReadBudget e (job_folder fs cid)) i)
                   (BudgetIdxRead i))"
    using assms(4) by (simp add: btimes_def get_results_budget_by_idx_def Let_def)
next
  show "py_int e layer = Some l \<and> py_int e row = Some r \<and> py_int e column = Some c
            \<and> t \<in> set permitted_types \<longrightarrow>
          get_results_time_series e fs cid t layer row column = time_series (heads t) l r c
          \<and> snd (get_results_time_series e fs cid t layer row column) = [SeriesRead l r c]"
    using assms(4)
    by (cases "t = ''head''")
       (auto simp: heads_def get_results_time_series_def time_series_def split: sum.splits)
qed

theorem selector_checks_witness:
  "snd (get_results_head_drawdown sim_env (modflow (marked_world ''200'')) ''sim-001''
          ''head'' ''-1'' ''1.0'') = [LayerRead (Finite 1) (- 1)]
   \<and> snd (get_results_time_series sim_env (modflow (marked_world ''200'')) ''sim-001''
          ''head'' ''5'' ''-1'' ''5'') = [SeriesRead 5 (- 1) 5]
   \<and> get_results_budget_by_idx sim_env (modflow (marked_world ''200'')) ''sim-001'' ''5''
       = (Inl (Abort 404 (TotimKeyNotAvailable 5 0 1)), [])
   \<and> fst (get_results_concentration sim_env (modflow (marked_world ''200'')) ''sim-001''
          ''5'' ''0'' ''1.0'') = Inl (Abort 404 (SubstanceNotAvailable 5 1))"
proof -
  let ?fs = "modflow (marked_world ''200'')"
  have h: "exists_in_job ?fs ''sim-001'' ''configuration.json''"
    by (simp add: setting_defs fs_defs)
  have i1: "py_int sim_env ''-1'' = Some (- 1)" and i5: "py_int sim_env ''5'' = Some 5"
    and i0: "py_int sim_env ''0'' = Some 0" and f1: "py_float sim_env ''1.0'' = Some (Finite 1)"
    by (simp_all add: setting_defs)
  have p: "''head'' \<in> set permitted_types" by (simp add: permitted_types_def)
  have m: "py_in (Finite 1) (read_times (if ''head'' = ''head''
              then ReadHead sim_env (job_folder ?fs ''sim-001'')
              else ReadDrawdown sim_env (job_folder ?fs ''sim-001'')))"
    by (simp add: sim_env_def sim_layers_def py_in_def py_eq_def)
  have n: "(- 1 :: int) < read_number_of_layers (if ''head'' = ''head''
              then ReadHead sim_env (job_folder ?fs ''sim-001'')
              else ReadDrawdown sim_env (job_folder ?fs ''sim-001''))"
    by (simp add: sim_env_def sim_layers_def)
  have b: "(5 :: int) \<ge> int (length (budget_read_times (ReadBudget sim_env (job_folder ?fs ''sim-001''))))"
    "int (length (budget_read_times (ReadBudget sim_env (job_folder ?fs ''sim-001'')))) - 1 = 1"
    by (simp_all add: sim_env_def sim_budget_def)
  have s: "(5 :: int) \<ge> read_number_of_substances (ReadConcentration sim_env (job_folder ?fs ''sim-001''))"
    "read_number_of_substances (ReadConcentration sim_env (job_folder ?fs ''sim-001'')) = 1"
    by (simp_all add: sim_env_def sim_concentration_def)
  note t = selector_checks[where e = sim_env, OF h]
  have a1: "snd (get_results_head_drawdown sim_env ?fs ''sim-001'' ''head'' ''-1'' ''1.0'')
      = [LayerRead (Finite 1) (- 1)]"
    using t[where totim = "''1.0''" and x = "Finite 1" and layer = "''-1''" and l = "- 1"
              and t = "''head''"] f1 i1 p m n by blast
  have a2: "snd (get_results_time_series sim_env ?fs ''sim-001'' ''head'' ''5'' ''-1'' ''5'')
      = [SeriesRead 5 (- 1) 5]"
    using t[where layer = "''5''" and l = 5 and row = "''-1''" and r = "- 1"
              and column = "''5''" and c = 5 and t = "''head''"] i5 i1 p by blast
  have a3: "get_results_budget_by_idx sim_env ?fs ''sim-001'' ''5''
      = (Inl (Abort 404 (TotimKeyNotAvailable 5 0 1)), [])"
    using t[where idx = "''5''" and i = 5] i5 b by simp
  have a4: "fst (get_results_concentration sim_env ?fs ''sim-001'' ''5'' ''0'' ''1.0'')
      = Inl (Abort 404 (SubstanceNotAvailable 5 1))"
    using t[where layer = "''0''" and l = 0 and substance = "''5''" and s = 5
              and totim = "''1.0''" and x = "Finite 1"] i0 i5 f1 s by simp
  from a1 a2 a3 a4 show ?thesis by blast
qed

text \<open>
  C6 as stated fails: a negative layer, a negative index and a negative substance are
  handed to the reader instead of being rejected, and the time-series query accepts layer
  5 of 1.
\<close>

theorem lower_bound_counterexample:
  "get_results_head_drawdown sim_env (modflow (marked_world ''200'')) ''sim-001''
       ''head'' ''-1'' ''1.0''
     = (Inr (ArrayJson (JArr [JInt (- 1)])), [LayerRead (Finite 1) (- 1)])
   \<and> get_results_time_series sim_env (modflow (marked_world ''200'')) ''sim-001''
       ''drawdown'' ''5'' ''-1'' ''5''
     = (Inr (ArrayJson (JArr [JInt 5, JInt (- 1), JInt 5])), [SeriesRead 5 (- 1) 5])
   \<and> get_results_budget_by_idx sim_env (modflow (marked_world ''200'')) ''sim-001'' ''-1''
     = (Inr (BudgetJson (JInt (- 1)) (JInt (- 1))),
        [BudgetIdxRead (- 1) False, BudgetIdxRead (- 1) True])
   \<and> get_results_concentration sim_env (modflow (marked_world ''200'')) ''sim-001''
       ''-1'' ''-1'' ''1.0''
     = (Inr (ArrayJson (JArr [JInt (- 1), JInt (- 1)])), [ConcentrationRead (- 1) (Finite 1) (- 1)])
   \<and> read_number_of_layers sim_layers = 1"
  by (simp add: query_defs setting_defs fs_defs)

text \<open>
  C7, as the code has it. For an existing job and a requested time that is not equal to
  any time the reader reports, each of the three queries is rejected with status 404
  before any array is read. The rejection carries the requested time and exactly the
  reported list, unless a test that comes first has failed: the type of a layer-slice
  query that is not permitted, or the substance of a concentration query that is at or
  above the substance count. Membership is equality with an element, and NaN is equal to
  none.
\<close>

theorem unknown_time_rejected:
  fixes e :: env and fs :: folder and cid :: string
  defines "heads t \<equiv> (if t = ''head'' then ReadHead e (job_folder fs cid)
                        else ReadDrawdown e (job_folder fs cid))"
    and "conc \<equiv> ReadConcentration e (job_folder fs cid)"
    and "btimes \<equiv> budget_read_times (ReadBudget e (job_folder fs cid))"
  assumes "exists_in_job fs cid ''configuration.json''"
    and "py_float e totim = Some x"
  shows "(py_int e layer = Some l \<and> \<not> py_in x (read_times (heads t)) \<longrightarrow>
          get_results_head_drawdown e fs cid t layer totim
            = (Inl (Abort 404 (if t \<in> set permitted_types
                               then TotimNotAvailable x (read_times (heads t))
                               else TypeNotPermitted t permitted_types)), []))
       \<and> (\<not> py_in x btimes \<longrightarrow>
          get_results_budget_by_totim e fs cid totim
            = (Inl (Abort 404 (TotimNotAvailable x btimes)), []))
       \<and> (py_int e layer = Some l \<and> py_int e substance = Some s
            \<and> \<not> py_in x (concentration_read_times conc) \<longrightarrow>
          get_results_concentration e fs cid substance layer totim
            = (Inl (Abort 404 (if s \<ge> read_number_of_substances conc
                               then SubstanceNotAvailable s (read_number_of_substances conc)
                               else TotimNotAvailable x (concentration_read_times conc))), []))
       \<and> (\<forall>xs. py_in x xs \<longleftrightarrow> x \<noteq> NaN \<and> x \<in> set xs)"
proof (intro conjI)
  show "py_int e layer = Some l \<and> \<not> py_in x (read_times (heads t)) \<longrightarrow>
          get_results_head_drawdown e fs cid t layer totim
            = (Inl (Abort 404 (if t \<in> set permitted_types
                               then TotimNotAvailable x (read_times (heads t))
                               else TypeNotPermitted t permitted_types)), [])"
    using assms(4,5)
    by (cases "t = ''head''")
       (auto simp: heads_def get_results_head_drawdown_def layer_slice_def Let_def)
next
  show "\<not> py_in x btimes \<longrightarrow>
          get_results_budget_by_totim e fs cid totim
            = (Inl (Abort 404 (TotimNotAvailable x btimes)), [])"
    using assms(4,5) by (simp add: btimes_def get_results_budget_by_totim_def Let_def)
next
  show "py_int e layer = Some l \<and> py_int e substance = Some s
            \<and> \<not> py_in x (concentration_read_times conc) \<longrightarrow>
          get_results_concentration e fs cid substance layer totim
            = (Inl (Abort 404 (if s \<ge> read_number_of_substances conc
                               then SubstanceNotAvailable s (read_number_of_substances conc)
                               else TotimNotAvailable x (concentration_read_times conc))), [])"
    using assms(4,5) by (simp add: conc_def get_results_concentration_def Let_def)
next
  show "\<forall>xs. py_in x xs \<longleftrightarrow> x \<noteq> NaN \<and> x \<in> set xs"
    by (simp add: py_in_iff)
qed

theorem unknown_time_rejected_witness:
  "get_results_head_drawdown sim_env (modflow (marked_world ''200'')) ''sim-001''
       ''head'' ''0'' ''3.5''
     = (Inl (Abort 404 (TotimNotAvailable (Finite (7 / 2)) [Finite 1, Finite 2])), [])
   \<and> get_results_budget_by_totim sim_env (modflow (marked_world ''200'')) ''sim-001'' ''3.5''
     = (Inl (Abort 404 (TotimNotAvailable (Finite (7 / 2)) [Finite 1, Finite 2])), [])
   \<and> get_results_concentration sim_env (modflow (marked_world ''200'')) ''sim-001''
       ''0'' ''0'' ''3.5''
     = (Inl (Abort 404 (TotimNotAvailable (Finite (7 / 2)) [Finite 1, Finite 2])), [])"
proof -
  let ?fs = "modflow (marked_world ''200'')"
  have h: "exists_in_job ?fs ''sim-001'' ''configuration.json''"
    by (simp add: setting_defs fs_defs)
  have f: "py_float sim_env ''3.5'' = Some (Finite (7 / 2))" by (simp add: setting_defs)
  have i0: "py_int sim_env ''0'' = Some 0" by (simp add: setting_defs)
  have p: "''head'' \<in> set permitted_types" by (simp add: permitted_types_def)
  have r: "ReadHead sim_env (job_folder ?fs ''sim-001'') = sim_layers"
    "ReadBudget sim_env (job_folder ?fs ''sim-001'') = sim_budget"
    "ReadConcentration sim_env (job_folder ?fs ''sim-001'') = sim_concentration"
    by (simp_all add: sim_env_def)
  have n: "\<not> py_in (Finite (7 / 2)) [Finite 1, Finite 2]"
    by (simp add: py_in_def py_eq_def)
  note t = unknown_time_rejected[where e = sim_env, OF h f, where layer = "''0''" and l = 0
             and t = "''head''" and substance = "''0''" and s = 0]
  from t i0 p n r show ?thesis
    by (simp add: sim_layers_def sim_budget_def sim_concentration_def)
qed

text \<open>
  C7 as stated fails on the message: for a time that is not reported, a concentration
  query with substance 5 of 1 is rejected with the substance count, and a layer-slice
  query of type budget with the list of permitted types.
\<close>

theorem time_message_counterexample:
  "get_results_concentration sim_env (modflow (marked_world ''200'')) ''sim-001''
       ''5'' ''0'' ''3.5''
     = (Inl (Abort 404 (SubstanceNotAvailable 5 1)), [])
   \<and> get_results_head_drawdown sim_env (modflow (marked_world ''200'')) ''sim-001''
       ''budget'' ''0'' ''3.5''
     = (Inl (Abort 404 (TypeNotPermitted ''budget'' [''head'', ''drawdown''])), [])
   \<and> py_float sim_env ''3.5'' = Some (Finite (7 / 2))
   \<and> \<not> py_in (Finite (7 / 2))
         (concentration_read_times
            (ReadConcentration sim_env (job_folder (modflow (marked_world ''200'')) ''sim-001'')))"
  by (simp add: query_defs setting_defs fs_defs)

section \<open>Files, download and the existence of a job\<close>


lemma null_in_blocks_from:
  "null_in_blocks (blocks_from cur bytes) \<longleftrightarrow> CHR 0x00 \<in> set cur \<union> set bytes"
  by (induction bytes arbitrary: cur) auto

lemma concat_blocks_from: "concat (blocks_from cur bytes) = cur @ bytes"
  by (induction bytes arbitrary: cur) auto

lemma is_binary_iff: "is_binary (File bytes) = Inr (CHR 0x00 \<in> set bytes)"
  by (simp add: is_binary_def blocks_def null_in_blocks_from)

lemma universal_newlines_id: "CHR 0x0D \<notin> set s \<Longrightarrow> universal_newlines s = s"
  by (induction s rule: universal_newlines.induct) auto

lemma binary_notice_text: "CHR 0x00 \<notin> set binary_notice"
  by (simp add: binary_notice_def)

text \<open>
  C8, as the code has it. For an existing regular file of the job's directory:
  \<^item> with at least one zero byte anywhere, the answer carries the notice that the file is
    binary, which is never the content of such a file;
  \<^item> with no zero byte, the answer carries the file as \<open>open\<close> reads it in text mode: the
    bytes decoded, every CR LF and lone CR turned into LF; bytes that do not decode raise
    instead;
  \<^item> so the content is returned verbatim when the file has no zero byte, decodes to
    itself and has no CR.
\<close>

theorem get_file_text_or_binary:
  assumes "job_entry fs cid file_name = Some (File bytes)"
  shows "(CHR 0x00 \<in> set bytes \<longrightarrow>
            get_file e fs cid file_name = Inr (FileJson file_name binary_notice)
            \<and> binary_notice \<noteq> bytes)
       \<and> (CHR 0x00 \<notin> set bytes \<longrightarrow>
            get_file e fs cid file_name =
              (case codec e bytes of
                 None \<Rightarrow> Inl (Raise ValueError)
               | Some s \<Rightarrow> Inr (FileJson file_name (universal_newlines s))))
       \<and> (CHR 0x00 \<notin> set bytes \<and> codec e bytes = Some bytes \<and> CHR 0x0D \<notin> set bytes \<longrightarrow>
            get_file e fs cid file_name = Inr (FileJson file_name bytes))"
proof (intro conjI impI)
  assume z: "CHR 0x00 \<in> set bytes"
  with assms show "get_file e fs cid file_name = Inr (FileJson file_name binary_notice)"
    by (simp add: get_file_def is_binary_iff)
  from z binary_notice_text show "binary_notice \<noteq> bytes" by metis
next
  assume "CHR 0x00 \<notin> set bytes"
  with assms show "get_file e fs cid file_name =
      (case codec e bytes of
         None \<Rightarrow> Inl (Raise ValueError)
       | Some s \<Rightarrow> Inr (FileJson file_name (universal_newlines s)))"
    by (simp add: get_file_def is_binary_iff)
next
  assume "CHR 0x00 \<notin> set bytes \<and> codec e bytes = Some bytes \<and> CHR 0x0D \<notin> set bytes"
  with assms show "get_file e fs cid file_name = Inr (FileJson file_name bytes)"
    by (simp add: get_file_def is_binary_iff universal_newlines_id)
qed

theorem get_file_text_or_binary_witness:
  "get_file sim_env (modflow (marked_world ''200'')) ''sim-001'' ''mf.list''
     = Inr (FileJson ''mf.list'' ''ok'')
   \<and> get_file sim_env (modflow (marked_world [CHR ''2'', CHR 0x00])) ''sim-001'' ''state.log''
     = Inr (FileJson ''state.log'' binary_notice)"
proof -
  have h1: "job_entry (modflow (marked_world ''200'')) ''sim-001'' ''mf.list'' = Some (File ''ok'')"
    by (simp add: setting_defs fs_defs)
  have h2: "job_entry (modflow (marked_world [CHR ''2'', CHR 0x00])) ''sim-001'' ''state.log''
      = Some (File [CHR ''2'', CHR 0x00])"
    by (simp add: setting_defs fs_defs)
  have t: "CHR 0x00 \<notin> set ''ok'' \<and> codec sim_env ''ok'' = Some ''ok'' \<and> CHR 0x0D \<notin> set ''ok''"
    by (simp add: setting_defs)
  have b: "CHR 0x00 \<in> set [CHR ''2'', CHR 0x00]" by simp
  from get_file_text_or_binary[OF h1, of sim_env] t
  have a1: "get_file sim_env (modflow (marked_world ''200'')) ''sim-001'' ''mf.list''
     = Inr (FileJson ''mf.list'' ''ok'')" by blast
  from get_file_text_or_binary[OF h2, of sim_env] b
  have a2: "get_file sim_env (modflow (marked_world [CHR ''2'', CHR 0x00])) ''sim-001'' ''state.log''
     = Inr (FileJson ''state.log'' binary_notice)" by blast
  from a1 a2 show ?thesis ..
qed

text \<open>
  C8 as stated fails: a file without a zero byte is not always returned verbatim. A file
  \<open>a CR LF b\<close> comes back as \<open>a LF b\<close>, and a file with a byte that the codec does not
  decode is answered with an exception.
\<close>

theorem verbatim_counterexample:
  "get_file sim_env [(''sim-001'', Dir [(''mf.list'', File [CHR ''a'', CHR 0x0D, CHR 0x0A, CHR ''b''])])]
       ''sim-001'' ''mf.list''
     = Inr (FileJson ''mf.list'' [CHR ''a'', CHR 0x0A, CHR ''b''])
   \<and> CHR 0x00 \<notin> set [CHR ''a'', CHR 0x0D, CHR 0x0A, CHR ''b'']
   \<and> get_file sim_env [(''sim-001'', Dir [(''mf.list'', File [CHR ''a'', CHR 0xFF])])]
       ''sim-001'' ''mf.list''
     = Inl (Raise ValueError)"
  by (simp add: get_file_def is_binary_def blocks_def setting_defs fs_defs)

text \<open>
  C9. What the code does for a job whose directory has a subdirectory with a file: the
  walk reaches the file, but \<open>z.write(filename)\<close> looks for its bare name in the job's
  directory itself. The name is not there and the download raises; or it is there, and
  the file of the top directory is stored a second time in place of the one of the
  subdirectory. A directory without subdirectories is archived as the claim says.
\<close>

theorem download_subdirectory_raises:
  "get_download_model
     [(''sim-001'', Dir [(''configuration.json'', File sim_bytes), (''mf.list'', File ''ok''),
                         (''out'', Dir [(''heads.txt'', File ''h'')])])] ''sim-001''
     = Inl (Raise FileNotFoundError)
   \<and> get_download_model
     [(''sim-001'', Dir [(''configuration.json'', File sim_bytes), (''mf.list'', File ''ok''),
                         (''out'', Dir [(''mf.list'', File ''other'')])])] ''sim-001''
     = Inr (ZipFile [(''mf.list'', ''ok''), (''mf.list'', ''ok'')])
   \<and> get_download_model
     [(''sim-001'', Dir [(''configuration.json'', File sim_bytes), (''mf.list'', File ''ok'')])]
       ''sim-001''
     = Inr (ZipFile [(''mf.list'', ''ok'')])"
  by (simp add: get_download_model_def zip_write_def endswith_def dirs_of_def files_of_def
        sim_bytes_def)

lemma details_json_no_abort:
  "get_calculation_details_json e rows fs cid data \<noteq> Inl (Abort c m)"
  by (simp add: get_calculation_details_json_def Let_def split: option.splits sum.splits)

lemma calculation_details_found:
  "exists_in_job (modflow w) cid ''configuration.json'' \<Longrightarrow>
   calculation_details e ctype w cid \<noteq> Inl (Abort 404 (CalculationNotFound cid))"
  by (auto simp: calculation_details_def details_json_no_abort
           split: sum.splits option.splits)

lemma head_drawdown_found:
  "exists_in_job fs cid ''configuration.json'' \<Longrightarrow>
   fst (get_results_head_drawdown e fs cid t layer totim) \<noteq> Inl (Abort 404 (CalculationNotFound cid))"
  by (auto simp: get_results_head_drawdown_def layer_slice_def Let_def
           split: sum.splits option.splits)

lemma time_series_found:
  "exists_in_job fs cid ''configuration.json'' \<Longrightarrow>
   fst (get_results_time_series e fs cid t layer row column) \<noteq> Inl (Abort 404 (CalculationNotFound cid))"
  by (auto simp: get_results_time_series_def time_series_def split: sum.splits option.splits)

lemma budget_by_totim_found:
  "exists_in_job fs cid ''configuration.json'' \<Longrightarrow>
   fst (get_results_budget_by_totim e fs cid totim) \<noteq> Inl (Abort 404 (CalculationNotFound cid))"
  by (auto simp: get_results_budget_by_totim_def Let_def budget_pair_no_abort split: option.splits)

lemma budget_by_idx_found:
  "exists_in_job fs cid ''configuration.json'' \<Longrightarrow>
   fst (get_results_budget_by_idx e fs cid idx) \<noteq> Inl (Abort 404 (CalculationNotFound cid))"
  by (auto simp: get_results_budget_by_idx_def Let_def budget_pair_no_abort split: option.splits)

lemma concentration_found:
  "exists_in_job fs cid ''configuration.json'' \<Longrightarrow>
   fst (get_results_concentration e fs cid substance layer totim)
     \<noteq> Inl (Abort 404 (CalculationNotFound cid))"
  by (auto simp: get_results_concentration_def Let_def split: sum.splits option.splits)

lemma exists_rmtree:
  "\<not> exists_in_job (rmtree fs cid) cid name"
  by (auto simp: exists_in_job_def job_entry_def rmtree_def map_of_remove_entry
           split: option.splits node.splits)

text \<open>
  C10. The metadata query and each of the five result queries answer with status 404
  and the message that the calculation is not found exactly when the job's directory has
  no configuration file. The rows of the registry play no part in that: the metadata
  query decides the same way for every content of the table, and the result queries do
  not take the registry at all. Once a resubmission has removed the directory, the
  configuration file is not there and the queries answer not found.
\<close>

theorem job_exists_iff_configuration:
  fixes e :: env and w :: world and cid :: string
  defines "missing \<equiv> Inl (Abort 404 (CalculationNotFound cid)) :: answer"
    and "present fs \<equiv> exists_in_job fs cid ''configuration.json''"
  shows "(\<forall>rows. calculation_details e ctype (w\<lparr>calculations := rows\<rparr>) cid = missing
            \<longleftrightarrow> \<not> present (modflow w))
       \<and> (fst (get_results_head_drawdown e (modflow w) cid t layer totim) = missing
            \<longleftrightarrow> \<not> present (modflow w))
       \<and> (fst (get_results_time_series e (modflow w) cid t layer row column) = missing
            \<longleftrightarrow> \<not> present (modflow w))
       \<and> (fst (get_results_budget_by_totim e (modflow w) cid totim) = missing
            \<longleftrightarrow> \<not> present (modflow w))
       \<and> (fst (get_results_budget_by_idx e (modflow w) cid idx) = missing
            \<longleftrightarrow> \<not> present (modflow w))
       \<and> (fst (get_results_concentration e (modflow w) cid substance layer totim) = missing
            \<longleftrightarrow> \<not> present (modflow w))
       \<and> \<not> present (rmtree (modflow w) cid)"
proof (intro conjI allI)
  fix rows
  show "calculation_details e ctype (w\<lparr>calculations := rows\<rparr>) cid = missing
      \<longleftrightarrow> \<not> present (modflow w)"
    using calculation_details_found[of "w\<lparr>calculations := rows\<rparr>" cid e ctype]
    by (auto simp: missing_def present_def calculation_details_def)
next
  show "fst (get_results_head_drawdown e (modflow w) cid t layer totim) = missing
      \<longleftrightarrow> \<not> present (modflow w)"
    using head_drawdown_found[of "modflow w" cid e t layer totim]
    by (auto simp: missing_def present_def get_results_head_drawdown_def)
next
  show "fst (get_results_time_series e (modflow w) cid t layer row column) = missing
      \<longleftrightarrow> \<not> present (modflow w)"
    using time_series_found[of "modflow w" cid e t layer row column]
    by (auto simp: missing_def present_def get_results_time_series_def)
next
  show "fst (get_results_budget_by_totim e (modflow w) cid totim) = missing
      \<longleftrightarrow> \<not> present (modflow w)"
    using budget_by_totim_found[of "modflow w" cid e totim]
    by (auto simp: missing_def present_def get_results_budget_by_totim_def)
next
  show "fst (get_results_budget_by_idx e (modflow w) cid idx) = missing
      \<longleftrightarrow> \<not> present (modflow w)"
    using budget_by_idx_found[of "modflow w" cid e idx]
    by (auto simp: missing_def present_def get_results_budget_by_idx_def)
next
  show "fst (get_results_concentration e (modflow w) cid substance layer totim) = missing
      \<longleftrightarrow> \<not> present (modflow w)"
    using concentration_found[of "modflow w" cid e substance layer totim]
    by (auto simp: missing_def present_def get_results_concentration_def)
next
  show "\<not> present (rmtree (modflow w) cid)"
    by (simp add: present_def exists_rmtree)
qed

theorem job_exists_iff_configuration_witness:
  "calculation_details sim_env (Some ''application/json'')
       (fresh_world\<lparr>calculations := [sim_row]\<rparr>) ''sim-001''
     = Inl (Abort 404 (CalculationNotFound ''sim-001''))
   \<and> get_calculation_by_id [sim_row] ''sim-001'' = Some sim_row
   \<and> calculation_details sim_env None (queued_world\<lparr>calculations := []\<rparr>) ''sim-001''
     \<noteq> Inl (Abort 404 (CalculationNotFound ''sim-001''))
   \<and> fst (get_results_head_drawdown sim_env
            (modflow (snd (upload_file sim_env json_request queued_world)))
            ''sim-001'' ''head'' ''0'' ''1.0'')
     = Inl (Abort 404 (CalculationNotFound ''sim-001''))"
proof -
  have a: "\<not> exists_in_job (modflow fresh_world) ''sim-001'' ''configuration.json''"
    by (simp add: setting_defs fs_defs)
  have b: "exists_in_job (modflow queued_world) ''sim-001'' ''configuration.json''"
    by (simp add: setting_defs fs_defs)
  have c: "get_calculation_by_id [sim_row] ''sim-001'' = Some sim_row"
    by (simp add: get_calculation_by_id_def sim_row_def)
  have d: "snd (upload_file sim_env json_request queued_world) = queued_world\<lparr>modflow := []\<rparr>"
    by (simp add: upload_defs setting_defs fs_defs)
  have e: "\<not> exists_in_job (modflow (queued_world\<lparr>modflow := []\<rparr>)) ''sim-001'' ''configuration.json''"
    by (simp add: fs_defs)
  note t1 = job_exists_iff_configuration[where e = sim_env and w = fresh_world
      and cid = "''sim-001''" and ctype = "Some ''application/json''"]
  note t2 = job_exists_iff_configuration[where e = sim_env and w = queued_world
      and cid = "''sim-001''" and ctype = None]
  note t3 = job_exists_iff_configuration[where e = sim_env and w = "queued_world\<lparr>modflow := []\<rparr>"
      and cid = "''sim-001''" and t = "''head''" and layer = "''0''" and totim = "''1.0''"]
  from t1 a have r1: "calculation_details sim_env (Some ''application/json'')
       (fresh_world\<lparr>calculations := [sim_row]\<rparr>) ''sim-001''
     = Inl (Abort 404 (CalculationNotFound ''sim-001''))" by blast
  from t2 b have r2: "calculation_details sim_env None (queued_world\<lparr>calculations := []\<rparr>) ''sim-001''
     \<noteq> Inl (Abort 404 (CalculationNotFound ''sim-001''))" by blast
  from t3 e have r3: "fst (get_results_head_drawdown sim_env
            (modflow (queued_world\<lparr>modflow := []\<rparr>)) ''sim-001'' ''head'' ''0'' ''1.0'')
     = Inl (Abort 404 (CalculationNotFound ''sim-001''))" by blast
  from r1 c r2 r3 d show ?thesis by simp
qed

section \<open>The sibling path of resubmission, and the names in an archive\<close>


text \<open>
  The sibling path: when the marker file is there and does not read \<open>200\<close>, the
  directory is removed and created again, and a second record is inserted.
\<close>

lemma resubmit_failed_recreates:
  "upload_file sim_env json_request (marked_world ''400'')
     = (Inr (Identity 200 ''sim-001'' ''/sim-001''),
        \<lparr>modflow = [(''sim-001'', Dir [(''configuration.json'', File sim_bytes)])],
         uploads = [],
         calculations = [sim_row, sim_row\<lparr>created_at := 10, updated_at := 11\<rparr>]\<rparr>)"
  by (simp add: upload_defs setting_defs fs_defs)

text \<open>Whatever archive the download produces, no name in it ends in \<open>.json\<close>.\<close>

lemma endswith_last: "endswith s suffix \<Longrightarrow> suffix \<noteq> [] \<Longrightarrow> last s = last suffix"
proof -
  assume a: "endswith s suffix" and b: "suffix \<noteq> []"
  from a have "drop (length s - length suffix) s = suffix"
    by (simp add: endswith_def)
  then have "s = take (length s - length suffix) s @ suffix"
    by (metis append_take_drop_id)
  then have "last s = last (take (length s - length suffix) s @ suffix)" by simp
  with b show ?thesis by simp
qed

lemma slash_not_json: "\<not> endswith (name @ ''/'') ''.json''"
proof
  assume "endswith (name @ ''/'') ''.json''"
  from endswith_last[OF this] show False by simp
qed

lemma zip_write_names:
  assumes "zip_write cwd name z = Inr z'" and "\<not> endswith name ''.json''"
    and "\<forall>x \<in> set z. \<not> endswith (fst x) ''.json''"
  shows "\<forall>x \<in> set z'. \<not> endswith (fst x) ''.json''"
  using assms
  by (auto simp: zip_write_def slash_not_json split: option.splits node.splits)

lemma write_files_names:
  "write_files cwd names z = Inr z' \<Longrightarrow> \<forall>x \<in> set z. \<not> endswith (fst x) ''.json''
   \<Longrightarrow> \<forall>x \<in> set z'. \<not> endswith (fst x) ''.json''"
proof (induction names arbitrary: z)
  case Nil
  then show ?case by simp
next
  case (Cons name names)
  show ?case
  proof (cases "endswith name ''.json''")
    case True
    with Cons show ?thesis by simp
  next
    case False
    with Cons.prems(1) obtain z1 where w: "zip_write cwd name z = Inr z1"
      and r: "write_files cwd names z1 = Inr z'"
      by (auto split: sum.splits)
    from zip_write_names[OF w False Cons.prems(2)] Cons.IH[OF r] show ?thesis by blast
  qed
qed

lemma write_walk_names:
  "write_walk cwd triples z = Inr z' \<Longrightarrow> \<forall>x \<in> set z. \<not> endswith (fst x) ''.json''
   \<Longrightarrow> \<forall>x \<in> set z'. \<not> endswith (fst x) ''.json''"
proof (induction triples arbitrary: z)
  case Nil
  then show ?case by simp
next
  case (Cons tr triples)
  obtain dirpath dirnames filenames where tr: "tr = (dirpath, dirnames, filenames)"
    by (cases tr) auto
  with Cons.prems(1) obtain z1 where w: "write_files cwd filenames z = Inr z1"
    and r: "write_walk cwd triples z1 = Inr z'"
    by (auto split: sum.splits)
  from write_files_names[OF w Cons.prems(2)] Cons.IH[OF r] show ?case by blast
qed

lemma download_has_no_json:
  "get_download_model fs cid = Inr (ZipFile z) \<Longrightarrow> \<forall>x \<in> set z. \<not> endswith (fst x) ''.json''"
proof -
  assume a: "get_download_model fs cid = Inr (ZipFile z)"
  then obtain es where "write_walk es (walk_node ''.'' (Dir es)) [] = Inr z"
    unfolding get_download_model_def
    by (auto split: option.splits node.splits sum.splits)
  from write_walk_names[OF this] show ?thesis by simp
qed

end
